theory Spec2Isabelle
  imports Complex_Main
begin

section \<open>Floating-point values\<close>

text \<open>
  Every number of the backtesting core is a Python \<^verbatim>\<open>float\<close> or a numpy
  \<^verbatim>\<open>float64\<close>. A value is modelled as a real number or one of the three special
  values of IEEE 754. Arithmetic on finite values is exact here (the sign of zero is
  not modelled; the weight computations of the portfolio are translated a second time
  below, with the rounding of every operation); the special values follow IEEE 754: a non-zero number
  divided by zero is an infinity, \<open>0/0\<close> and \<open>inf/inf\<close> and \<open>inf - inf\<close> are NaN, NaN
  propagates, and every ordered comparison with NaN is false. Python integers that
  enter float arithmetic (\<^verbatim>\<open>sum\<close>'s start value \<open>0\<close>, a signal \<open>1\<close> or \<open>-1\<close>) are the
  corresponding finite values.
\<close>

datatype fl = Fin real | PInf | NInf | NaN

definition inf_of_sign :: "real \<Rightarrow> fl" where
  "inf_of_sign s = (if 0 < s then PInf else if s < 0 then NInf else NaN)"

fun fsign :: "fl \<Rightarrow> real" where
  "fsign (Fin x) = sgn x"
| "fsign PInf = 1"
| "fsign NInf = - 1"
| "fsign NaN = 0"

fun fneg :: "fl \<Rightarrow> fl" where
  "fneg (Fin x) = Fin (- x)"
| "fneg PInf = NInf"
| "fneg NInf = PInf"
| "fneg NaN = NaN"

fun fadd :: "fl \<Rightarrow> fl \<Rightarrow> fl" where
  "fadd (Fin x) (Fin y) = Fin (x + y)"
| "fadd NaN b = NaN"
| "fadd a NaN = NaN"
| "fadd PInf NInf = NaN"
| "fadd NInf PInf = NaN"
| "fadd PInf b = PInf"
| "fadd a PInf = PInf"
| "fadd NInf b = NInf"
| "fadd a NInf = NInf"

definition fsub :: "fl \<Rightarrow> fl \<Rightarrow> fl" where
  "fsub a b = fadd a (fneg b)"

fun fmul :: "fl \<Rightarrow> fl \<Rightarrow> fl" where
  "fmul (Fin x) (Fin y) = Fin (x * y)"
| "fmul NaN b = NaN"
| "fmul a NaN = NaN"
| "fmul a b = inf_of_sign (fsign a * fsign b)"

text \<open>
  Division as numpy's \<^verbatim>\<open>float64\<close> does it: dividing by zero raises nothing (numpy
  only warns) and yields an infinity or NaN.
\<close>

fun fdiv :: "fl \<Rightarrow> fl \<Rightarrow> fl" where
  "fdiv (Fin x) (Fin y) = (if y = 0 then inf_of_sign x else Fin (x / y))"
| "fdiv NaN b = NaN"
| "fdiv a NaN = NaN"
| "fdiv (Fin x) b = Fin 0"
| "fdiv a (Fin y) = (if y < 0 then fneg a else a)"
| "fdiv a b = NaN"

fun fsqrt :: "fl \<Rightarrow> fl" where
  "fsqrt (Fin x) = (if x < 0 then NaN else Fin (sqrt x))"
| "fsqrt PInf = PInf"
| "fsqrt NInf = NaN"
| "fsqrt NaN = NaN"

fun fabs :: "fl \<Rightarrow> fl" where
  "fabs (Fin x) = Fin \<bar>x\<bar>"
| "fabs PInf = PInf"
| "fabs NInf = PInf"
| "fabs NaN = NaN"

fun flt :: "fl \<Rightarrow> fl \<Rightarrow> bool" where
  "flt (Fin x) (Fin y) = (x < y)"
| "flt NaN b = False"
| "flt a NaN = False"
| "flt PInf b = False"
| "flt a NInf = False"
| "flt a b = True"

fun fle :: "fl \<Rightarrow> fl \<Rightarrow> bool" where
  "fle (Fin x) (Fin y) = (x \<le> y)"
| "fle NaN b = False"
| "fle a NaN = False"
| "fle NInf b = True"
| "fle a PInf = True"
| "fle a b = False"

text \<open>\<^verbatim>\<open>a != b\<close>: NaN differs from everything, itself included.\<close>

definition fne :: "fl \<Rightarrow> fl \<Rightarrow> bool" where
  "fne a b = (a = NaN \<or> b = NaN \<or> a \<noteq> b)"

text \<open>
  Python's built-in \<^verbatim>\<open>min(a, b)\<close> returns \<open>a\<close> unless \<open>b < a\<close>; numpy's
  \<^verbatim>\<open>np.maximum\<close> propagates NaN.
\<close>

definition py_min :: "fl \<Rightarrow> fl \<Rightarrow> fl" where
  "py_min a b = (if flt b a then b else a)"

definition np_maximum :: "fl \<Rightarrow> fl \<Rightarrow> fl" where
  "np_maximum a b = (if a = NaN \<or> b = NaN then NaN else if flt a b then b else a)"

text \<open>
  \<^verbatim>\<open>sum(...)\<close> and \<^verbatim>\<open>np.sum\<close> add from zero; \<^verbatim>\<open>np.mean\<close> divides the sum by
  the count (NaN for an empty array); \<^verbatim>\<open>np.std(xs, ddof)\<close> is the square root of the
  sum of squared deviations from the mean divided by \<open>max (n - ddof) 0\<close>.
\<close>

definition py_sum :: "fl list \<Rightarrow> fl" where
  "py_sum xs = foldl fadd (Fin 0) xs"

definition np_mean :: "fl list \<Rightarrow> fl" where
  "np_mean xs = fdiv (py_sum xs) (Fin (real (length xs)))"

definition np_std :: "nat \<Rightarrow> fl list \<Rightarrow> fl" where
  "np_std ddof xs =
     (let m = np_mean xs;
          sq = map (\<lambda>x. fmul (fsub x m) (fsub x m)) xs
      in fsqrt (fdiv (py_sum sq) (Fin (real (length xs - ddof)))))"

section \<open>Backtest engine: performance metrics\<close>

text \<open>
  \<^verbatim>\<open>calculate_sharpe_ratio(returns, risk_free_rate=0.02)\<close>: zero for an empty list and
  for a single return; otherwise the mean excess return over its sample standard
  deviation (\<open>ddof = 1\<close>), times the square root of 252. The quotient is a numpy division.
\<close>

definition calculate_sharpe_ratio :: "fl list \<Rightarrow> fl \<Rightarrow> fl" where
  "calculate_sharpe_ratio returns risk_free_rate =
     (if returns = [] then Fin 0
      else let excess_returns = map (\<lambda>r. fsub r (fdiv risk_free_rate (Fin 252))) returns
           in if 1 < length returns
              then fmul (fdiv (np_mean excess_returns) (np_std 1 excess_returns))
                        (fsqrt (Fin 252))
              else Fin 0)"

text \<open>
  \<^verbatim>\<open>calculate_max_drawdown\<close>: cumulative product of \<open>1 + r\<close>, its running maximum
  (\<^verbatim>\<open>np.maximum.accumulate\<close>), the relative distance below it, and the absolute value
  of the smallest one as Python's \<^verbatim>\<open>min\<close> finds it.
\<close>

fun cumprod_from :: "fl \<Rightarrow> fl list \<Rightarrow> fl list" where
  "cumprod_from acc [] = []"
| "cumprod_from acc (x # xs) = fmul acc x # cumprod_from (fmul acc x) xs"

definition np_cumprod :: "fl list \<Rightarrow> fl list" where
  "np_cumprod xs = (case xs of [] \<Rightarrow> [] | x # rest \<Rightarrow> x # cumprod_from x rest)"

fun maxacc_from :: "fl \<Rightarrow> fl list \<Rightarrow> fl list" where
  "maxacc_from acc [] = []"
| "maxacc_from acc (x # xs) = np_maximum acc x # maxacc_from (np_maximum acc x) xs"

definition np_maximum_accumulate :: "fl list \<Rightarrow> fl list" where
  "np_maximum_accumulate xs = (case xs of [] \<Rightarrow> [] | x # rest \<Rightarrow> x # maxacc_from x rest)"

definition py_min_list :: "fl \<Rightarrow> fl list \<Rightarrow> fl" where
  "py_min_list x xs = foldl py_min x xs"

definition calculate_max_drawdown :: "fl list \<Rightarrow> fl" where
  "calculate_max_drawdown returns =
     (if returns = [] then Fin 0
      else let cumulative = np_cumprod (map (\<lambda>r. fadd (Fin 1) r) returns);
               running_max = np_maximum_accumulate cumulative;
               drawdowns = map (\<lambda>(c, m). fsub (fdiv c m) (Fin 1)) (zip cumulative running_max)
           in fabs (py_min_list (hd drawdowns) (tl drawdowns)))"

text \<open>
  \<^verbatim>\<open>calculate_risk_adjusted_return\<close>: the mean over the population standard deviation,
  the divisor replaced by \<open>1\<close> unless it is positive.
\<close>

definition calculate_risk_adjusted_return :: "fl list \<Rightarrow> fl" where
  "calculate_risk_adjusted_return returns =
     (if returns = [] then Fin 0
      else fdiv (np_mean returns)
                (if flt (Fin 0) (np_std 0 returns) then np_std 0 returns else Fin 1))"

section \<open>Backtest engine: simulation\<close>

datatype error =
    KeyError | IndexError | ValueError | TypeError | AttributeError
  | ZeroDivisionError | ConstructionError | OverflowError

datatype MarketCondition = BULL | BEAR | SIDEWAYS | VOLATILE | LOW_VOLATILITY

text \<open>A row of the historical price frame: its index label and its closing price.\<close>

record bar =
  bar_name :: nat
  close :: fl

text \<open>
  A strategy object, as far as the core uses it: the attribute \<^verbatim>\<open>id\<close>, the method
  \<^verbatim>\<open>generate_signal\<close> (called with the price prefix by the engine and with the symbol
  by the orchestrator) and the method \<^verbatim>\<open>get_confidence\<close>, which the object may lack
  (\<open>None\<close>). Strategies are taken to be pure.
\<close>

datatype signal_input = Prefix "bar list" | Symbol string

record strategy =
  sid :: string
  generate_signal :: "signal_input \<Rightarrow> int"
  get_confidence :: "fl option"

datatype side = Long | Short

record position =
  pos_type :: side
  pos_entry_price :: fl
  pos_entry_time :: nat
  pos_size :: fl

record trade =
  entry_time :: nat
  exit_time :: nat
  entry_price :: fl
  exit_price :: fl
  trade_type :: side
  pnl :: fl

record BacktestResult =
  strategy_id :: string
  start_date :: nat
  end_date :: nat
  returns :: "fl list"
  trades :: "trade list"
  sharpe_ratio :: fl
  max_drawdown :: fl
  win_rate :: fl
  profit_factor :: fl
  risk_adjusted_return :: fl
  market_conditions :: "(string \<times> MarketCondition) list"

record BacktestEngine =
  historical_data :: "string \<times> nat \<times> nat \<rightharpoonup> bar list"
  results_cache :: "string \<rightharpoonup> BacktestResult"

text \<open>
  \<^verbatim>\<open>detect_market_condition\<close> reads three numbers off pandas' rolling statistics of
  the window (the latest and the average rolling volatility and the relative change of
  the rolling mean) and classifies them. The pandas computation is a parameter \<open>ind\<close>,
  which may raise; the classification is the source's chain of comparisons.
\<close>

type_synonym indicators = "bar list \<Rightarrow> nat \<Rightarrow> error + (fl \<times> fl \<times> fl)"

definition detect_market_condition :: "indicators \<Rightarrow> bar list \<Rightarrow> nat \<Rightarrow> error + MarketCondition" where
  "detect_market_condition ind data window =
     (case ind data window of
        Inl e \<Rightarrow> Inl e
      | Inr (current_volatility, avg_volatility, price_trend) \<Rightarrow>
          Inr (if flt (fmul avg_volatility (Fin 1.5)) current_volatility then VOLATILE
               else if flt current_volatility (fmul avg_volatility (Fin 0.5)) then LOW_VOLATILITY
               else if flt (Fin 0.05) price_trend then BULL
               else if flt price_trend (Fin (- 0.05)) then BEAR
               else SIDEWAYS))"

text \<open>\<^verbatim>\<open>xs[a:b]\<close> with Python's treatment of negative and out-of-range bounds.\<close>

definition py_bound :: "nat \<Rightarrow> int \<Rightarrow> nat" where
  "py_bound n a = (if a < 0 then nat (max (a + int n) 0) else min (nat a) n)"

definition py_slice :: "'a list \<Rightarrow> int \<Rightarrow> int \<Rightarrow> 'a list" where
  "py_slice xs a b =
     (let lo = py_bound (length xs) a; hi = py_bound (length xs) b
      in take (hi - lo) (drop lo xs))"

definition load_historical_data :: "BacktestEngine \<Rightarrow> string \<Rightarrow> nat \<Rightarrow> nat \<Rightarrow> error + bar list" where
  "load_historical_data eng symbol start_d end_d =
     (case historical_data eng (symbol, start_d, end_d) of
        None \<Rightarrow> Inl KeyError
      | Some data \<Rightarrow> Inr data)"

text \<open>
  The state of the bar loop: the trades closed so far, the capital and the open
  position. (The list \<^verbatim>\<open>positions\<close> is written and never read; it is left out.)
\<close>

record bt_state =
  bt_trades :: "trade list"
  bt_capital :: fl
  bt_position :: "position option"

definition bt_step :: "strategy \<Rightarrow> bar list \<Rightarrow> bt_state \<Rightarrow> nat \<Rightarrow> bt_state" where
  "bt_step strat data st i =
     (let current_bar = data ! i;
          signal = generate_signal strat (Prefix (take (i + 1) data))
      in case bt_position st of
           None \<Rightarrow>
             (if signal \<noteq> 0
              then st\<lparr>bt_position := Some
                     \<lparr>pos_type = (if 0 < signal then Long else Short),
                      pos_entry_price = close current_bar,
                      pos_entry_time = bar_name current_bar,
                      pos_size = fdiv (fmul (bt_capital st) (Fin 0.02)) (close current_bar)\<rparr>\<rparr>
              else st)
         | Some p \<Rightarrow>
             (if signal = 0
              then let exit_p = close current_bar;
                       raw = fmul (fsub exit_p (pos_entry_price p)) (pos_size p);
                       v = (if pos_type p = Short then fmul raw (Fin (- 1)) else raw)
                   in st\<lparr>bt_trades := bt_trades st @
                            [\<lparr>entry_time = pos_entry_time p, exit_time = bar_name current_bar,
                              entry_price = pos_entry_price p, exit_price = exit_p,
                              trade_type = pos_type p, pnl = v\<rparr>],
                          bt_capital := fadd (bt_capital st) v,
                          bt_position := None\<rparr>
              else st))"

definition bt_loop :: "strategy \<Rightarrow> bar list \<Rightarrow> fl \<Rightarrow> bt_state" where
  "bt_loop strat data initial_capital =
     foldl (bt_step strat data)
       \<lparr>bt_trades = [], bt_capital = initial_capital, bt_position = None\<rparr>
       [0 ..< length data]"

text \<open>
  \<^verbatim>\<open>calculate_profit_factor\<close>: gross profit over gross loss, and infinity whenever the
  gross loss does not differ from zero.
\<close>

definition calculate_profit_factor :: "trade list \<Rightarrow> fl" where
  "calculate_profit_factor ts =
     (let profits = py_sum (map pnl (filter (\<lambda>t. flt (Fin 0) (pnl t)) ts));
          losses = py_sum (map (\<lambda>t. fabs (pnl t)) (filter (\<lambda>t. flt (pnl t) (Fin 0)) ts))
      in if fne losses (Fin 0) then fdiv profits losses else PInf)"

definition run_backtest ::
  "indicators \<Rightarrow> BacktestEngine \<Rightarrow> strategy \<Rightarrow> string \<Rightarrow> nat \<Rightarrow> nat \<Rightarrow> fl
     \<Rightarrow> error + (BacktestResult \<times> BacktestEngine)" where
  "run_backtest ind eng strat symbol start_d end_d initial_capital =
     (case load_historical_data eng symbol start_d end_d of
        Inl e \<Rightarrow> Inl e
      | Inr data \<Rightarrow>
     (case detect_market_condition ind (take 20 data) 20 of
        Inl e \<Rightarrow> Inl e
      | Inr c_start \<Rightarrow>
     (case detect_market_condition ind
             (py_slice data (int (length data) div 2 - 10) (int (length data) div 2 + 10)) 20 of
        Inl e \<Rightarrow> Inl e
      | Inr c_middle \<Rightarrow>
     (case detect_market_condition ind (drop (length data - 20) data) 20 of
        Inl e \<Rightarrow> Inl e
      | Inr c_end \<Rightarrow>
          (let ts = bt_trades (bt_loop strat data initial_capital);
               rs = map (\<lambda>t. fdiv (pnl t) initial_capital) ts;
               winning_trades = length (filter (\<lambda>t. flt (Fin 0) (pnl t)) ts);
               total_trades = length ts;
               result =
                 \<lparr>strategy_id = sid strat, start_date = start_d, end_date = end_d,
                  returns = rs, trades = ts,
                  sharpe_ratio = calculate_sharpe_ratio rs (Fin 0.02),
                  max_drawdown = calculate_max_drawdown rs,
                  win_rate = (if 0 < total_trades
                              then Fin (real winning_trades / real total_trades) else Fin 0),
                  profit_factor = calculate_profit_factor ts,
                  risk_adjusted_return = calculate_risk_adjusted_return rs,
                  market_conditions =
                    [(''start'', c_start), (''middle'', c_middle), (''end'', c_end)]\<rparr>
           in Inr (result, eng\<lparr>results_cache := (results_cache eng)(sid strat \<mapsto> result)\<rparr>))))))"

section \<open>Dictionaries\<close>

text \<open>
  A Python \<^verbatim>\<open>dict\<close> that the source iterates is an association list in insertion
  order: storing under a key that is present replaces the value in place, storing under
  a new key appends.
\<close>

fun dict_set :: "('k \<times> 'v) list \<Rightarrow> 'k \<Rightarrow> 'v \<Rightarrow> ('k \<times> 'v) list" where
  "dict_set [] k v = [(k, v)]"
| "dict_set ((k', v') # kvs) k v =
     (if k' = k then (k, v) # kvs else (k', v') # dict_set kvs k v)"

definition dict_get :: "('k \<times> 'v) list \<Rightarrow> 'k \<Rightarrow> 'v option" where
  "dict_get d k = map_of d k"

definition dict_keys :: "('k \<times> 'v) list \<Rightarrow> 'k list" where
  "dict_keys d = map fst d"

definition dict_del :: "('k \<times> 'v) list \<Rightarrow> 'k \<Rightarrow> ('k \<times> 'v) list" where
  "dict_del d k = filter (\<lambda>kv. fst kv \<noteq> k) d"

section \<open>Strategy evaluator\<close>

text \<open>
  The metrics dictionary of a score always has the five keys that
  \<^verbatim>\<open>evaluate_strategy\<close> writes; it is a record of them.
\<close>

record metrics =
  m_sharpe_ratio :: fl
  m_max_drawdown :: fl
  m_win_rate :: fl
  m_profit_factor :: fl
  m_risk_adjusted_return :: fl

record StrategyScore =
  score_id :: string
  overall_score :: fl
  performance_metrics :: metrics
  market_adaptability :: "(MarketCondition \<times> fl) list"
  consistency_score :: fl
  timestamp :: nat

record StrategyEvaluator =
  strategy_scores :: "(string \<times> StrategyScore) list"
  historical_scores :: "string \<rightharpoonup> StrategyScore list"

definition analyze_market_adaptability :: "BacktestResult list \<Rightarrow> (MarketCondition \<times> fl) list" where
  "analyze_market_adaptability results =
     map (\<lambda>condition.
            (condition,
             let scores = concat (map (\<lambda>r. map (\<lambda>kc. sharpe_ratio r)
                                       (filter (\<lambda>kc. snd kc = condition) (market_conditions r)))
                                  results)
             in if scores = [] then Fin 0 else np_mean scores))
         [BULL, BEAR, SIDEWAYS, VOLATILE, LOW_VOLATILITY]"

definition calculate_consistency :: "BacktestResult list \<Rightarrow> fl" where
  "calculate_consistency results =
     (if length results < 2 then Fin 0
      else np_mean
             [fdiv (Fin 1) (fadd (Fin 1) (np_std 0 (map sharpe_ratio results))),
              fdiv (Fin 1) (fadd (Fin 1) (np_std 0 (map win_rate results))),
              fdiv (Fin 1) (fadd (Fin 1) (np_std 0 (map profit_factor results)))])"

definition calculate_overall_score :: "metrics \<Rightarrow> (MarketCondition \<times> fl) list \<Rightarrow> fl \<Rightarrow> fl" where
  "calculate_overall_score ms adaptability consistency =
     (let performance_score =
            py_sum [fmul (m_sharpe_ratio ms) (Fin 0.25),
                    fmul (m_max_drawdown ms) (Fin 0.20),
                    fmul (m_win_rate ms) (Fin 0.15),
                    fmul (m_profit_factor ms) (Fin 0.20),
                    fmul (m_risk_adjusted_return ms) (Fin 0.20)];
          adaptability_score = np_mean (map snd adaptability)
      in fadd (fadd (fmul performance_score (Fin 0.5)) (fmul adaptability_score (Fin 0.3)))
              (fmul consistency (Fin 0.2)))"

definition get_strategy_history :: "StrategyEvaluator \<Rightarrow> string \<Rightarrow> StrategyScore list" where
  "get_strategy_history ev k = (case historical_scores ev k of None \<Rightarrow> [] | Some h \<Rightarrow> h)"

definition evaluate_strategy ::
  "StrategyEvaluator \<Rightarrow> BacktestResult list \<Rightarrow> nat \<Rightarrow> error + (StrategyScore \<times> StrategyEvaluator)" where
  "evaluate_strategy ev backtest_results now =
     (case backtest_results of
        [] \<Rightarrow> Inl ValueError
      | first # _ \<Rightarrow>
          (let k = strategy_id first;
               avg_metrics =
                 \<lparr>m_sharpe_ratio = np_mean (map sharpe_ratio backtest_results),
                  m_max_drawdown = np_mean (map max_drawdown backtest_results),
                  m_win_rate = np_mean (map win_rate backtest_results),
                  m_profit_factor = np_mean (map profit_factor backtest_results),
                  m_risk_adjusted_return = np_mean (map risk_adjusted_return backtest_results)\<rparr>;
               adaptability = analyze_market_adaptability backtest_results;
               consistency = calculate_consistency backtest_results;
               score =
                 \<lparr>score_id = k,
                  overall_score = calculate_overall_score avg_metrics adaptability consistency,
                  performance_metrics = avg_metrics,
                  market_adaptability = adaptability,
                  consistency_score = consistency,
                  timestamp = now\<rparr>
           in Inr (score,
                   ev\<lparr>strategy_scores := dict_set (strategy_scores ev) k score,
                      historical_scores :=
                        (historical_scores ev)(k \<mapsto> get_strategy_history ev k @ [score])\<rparr>)))"




section \<open>Strategy portfolio\<close>

record StrategyAllocation =
  alloc_id :: string
  weight :: fl
  max_allocation :: fl
  current_allocation :: fl
  alloc_metrics :: metrics
  last_update :: nat

record snapshot_entry =
  snap_weight :: fl
  snap_allocation :: fl
  snap_metrics :: metrics

record PortfolioSnapshot =
  snap_timestamp :: nat
  total_capital :: fl
  allocated_capital :: fl
  n_strategies :: nat
  snap_allocations :: "(string \<times> snapshot_entry) list"

record StrategyPortfolio =
  initial_capital :: fl
  current_capital :: fl
  allocations :: "(string \<times> StrategyAllocation) list"
  historical_performance :: "PortfolioSnapshot list"

definition min_score_threshold :: fl where
  "min_score_threshold = Fin 0.4"

definition new_portfolio :: "fl \<Rightarrow> StrategyPortfolio" where
  "new_portfolio capital =
     \<lparr>initial_capital = capital, current_capital = capital,
      allocations = [], historical_performance = []\<rparr>"

text \<open>
  \<^verbatim>\<open>_optimize_weights\<close>: the variance proxy is the squared drawdown, the covariance
  matrix is the outer product of the standard deviations times a correlation matrix
  (0.2 off the diagonal, 1 on it), and a weight is the reciprocal of the square root of
  a diagonal entry, divided by the sum of all of them. The result is a dictionary keyed
  by strategy id.
\<close>

definition correlation :: "nat \<Rightarrow> nat \<Rightarrow> fl" where
  "correlation i j = (if i = j then Fin 1 else Fin 0.2)"

definition covariance_matrix :: "fl list \<Rightarrow> fl list list" where
  "covariance_matrix variances =
     map (\<lambda>i. map (\<lambda>j. fmul (fmul (fsqrt (variances ! i)) (fsqrt (variances ! j)))
                              (correlation i j))
                   [0 ..< length variances])
         [0 ..< length variances]"

definition np_diag :: "fl list list \<Rightarrow> fl list" where
  "np_diag m = map (\<lambda>i. m ! i ! i) [0 ..< length m]"

definition optimize_weights :: "StrategyScore list \<Rightarrow> (string \<times> fl) list" where
  "optimize_weights scores =
     (if length scores = 0 then []
      else let variances = map (\<lambda>s. fmul (m_max_drawdown (performance_metrics s))
                                          (m_max_drawdown (performance_metrics s))) scores;
               covariance = covariance_matrix variances;
               raw = map (\<lambda>c. fdiv (Fin 1) (fsqrt c)) (np_diag covariance);
               ws = map (\<lambda>w. fdiv w (py_sum raw)) raw
           in foldl (\<lambda>d sw. dict_set d (score_id (fst sw)) (snd sw)) [] (zip scores ws))"

definition record_portfolio_state :: "StrategyPortfolio \<Rightarrow> nat \<Rightarrow> StrategyPortfolio" where
  "record_portfolio_state p now =
     (let total_allocation = py_sum (map (\<lambda>ka. current_allocation (snd ka)) (allocations p));
          state =
            \<lparr>snap_timestamp = now,
             total_capital = current_capital p,
             allocated_capital = total_allocation,
             n_strategies = length (allocations p),
             snap_allocations =
               map (\<lambda>ka. (fst ka,
                           \<lparr>snap_weight = weight (snd ka),
                            snap_allocation = current_allocation (snd ka),
                            snap_metrics = alloc_metrics (snd ka)\<rparr>))
                   (allocations p)\<rparr>
      in p\<lparr>historical_performance := historical_performance p @ [state]\<rparr>)"

text \<open>
  \<^verbatim>\<open>update_portfolio\<close>. The search \<^verbatim>\<open>next(s for s in valid_strategies if ...)\<close>
  cannot fail, since every key of the weights is the id of a valid score; the model
  keeps the dictionary unchanged in that unreachable case. Removed strategies hand
  their allocation back to the capital (the order of a Python set difference is not
  fixed; addition is order-independent here).
\<close>

definition handle_strategy_removal :: "StrategyPortfolio \<Rightarrow> StrategyAllocation \<Rightarrow> StrategyPortfolio" where
  "handle_strategy_removal p allocation =
     p\<lparr>current_capital := fadd (current_capital p) (current_allocation allocation)\<rparr>"

definition make_allocation :: "fl \<Rightarrow> nat \<Rightarrow> string \<Rightarrow> fl \<Rightarrow> StrategyScore \<Rightarrow> StrategyAllocation" where
  "make_allocation capital now k w score =
     \<lparr>alloc_id = k,
      weight = w,
      max_allocation = py_min (Fin 0.25) (fmul w (Fin 1.5)),
      current_allocation = fmul capital w,
      alloc_metrics = performance_metrics score,
      last_update = now\<rparr>"

definition update_portfolio :: "StrategyPortfolio \<Rightarrow> StrategyScore list \<Rightarrow> nat \<Rightarrow> StrategyPortfolio" where
  "update_portfolio p scores now =
     (let valid_strategies = filter (\<lambda>s. fle min_score_threshold (overall_score s)) scores
      in if valid_strategies = [] then p
         else let weights = optimize_weights valid_strategies;
                  new_allocations =
                    foldl (\<lambda>d kw.
                             case find (\<lambda>s. score_id s = fst kw) valid_strategies of
                               None \<Rightarrow> d
                             | Some score \<Rightarrow>
                                 dict_set d (fst kw)
                                   (make_allocation (current_capital p) now (fst kw) (snd kw) score))
                          [] weights;
                  removed = filter (\<lambda>ka. fst ka \<notin> set (dict_keys new_allocations)) (allocations p);
                  p1 = foldl handle_strategy_removal p (map snd removed)
              in record_portfolio_state (p1\<lparr>allocations := new_allocations\<rparr>) now)"

text \<open>
  \<^verbatim>\<open>adjust_allocation\<close>. The division by the other strategies' total weight happens
  only when that total is positive.
\<close>

definition adjust_allocation :: "StrategyPortfolio \<Rightarrow> string \<Rightarrow> fl \<Rightarrow> nat \<Rightarrow> StrategyPortfolio" where
  "adjust_allocation p k new_weight now =
     (if k \<notin> set (dict_keys (allocations p)) then p
      else let w = py_min new_weight (Fin 0.25);
               total_other_weight =
                 py_sum (map (\<lambda>ka. weight (snd ka))
                             (filter (\<lambda>ka. fst ka \<noteq> k) (allocations p)));
               scaled =
                 (if flt (Fin 0) total_other_weight
                  then let scale_factor = fdiv (fsub (Fin 1) w) total_other_weight
                       in map (\<lambda>ka. if fst ka \<noteq> k
                                     then (fst ka,
                                           (snd ka)\<lparr>weight := fmul (weight (snd ka)) scale_factor,
                                                     current_allocation :=
                                                       fmul (current_capital p)
                                                            (fmul (weight (snd ka)) scale_factor)\<rparr>)
                                     else ka)
                              (allocations p)
                  else allocations p);
               target =
                 map (\<lambda>ka. if fst ka = k
                            then (fst ka, (snd ka)\<lparr>weight := w,
                                                    current_allocation := fmul (current_capital p) w\<rparr>)
                            else ka)
                     scaled
           in record_portfolio_state (p\<lparr>allocations := target\<rparr>) now)"

text \<open>The sum of the weights of the current allocations.\<close>

definition weights_total :: "StrategyPortfolio \<Rightarrow> fl" where
  "weights_total p = py_sum (map (\<lambda>ka. weight (snd ka)) (allocations p))"

section \<open>Strategy portfolio in rounded arithmetic\<close>

text \<open>
  Whether the weights sum to 1 within a tolerance is a question about rounded
  arithmetic, so the portfolio is translated once more, now with the rounding that
  \<^verbatim>\<open>float64\<close> applies to the result of every operation. The rounding \<open>rnd\<close> is a
  parameter: it sends the exact result of an operation to the value the machine stores,
  a finite number, or an infinity when the result overflows. An operation on special
  values behaves as before. Python's \<^verbatim>\<open>sum\<close> adds from the left with one rounding per
  addition. With \<open>rnd = Fin\<close> and \<open>np_sum = py_sum\<close> every function of this section is
  the exact function of the same name above (lemmas \<open>update_portfolio_exact\<close> and
  \<open>adjust_allocation_exact\<close>).
\<close>

type_synonym rounding = "real \<Rightarrow> fl"

definition rounded :: "rounding \<Rightarrow> fl \<Rightarrow> fl" where
  "rounded rnd a = (case a of Fin x \<Rightarrow> rnd x | PInf \<Rightarrow> PInf | NInf \<Rightarrow> NInf | NaN \<Rightarrow> NaN)"

definition radd :: "rounding \<Rightarrow> fl \<Rightarrow> fl \<Rightarrow> fl" where
  "radd rnd a b = rounded rnd (fadd a b)"

definition rsub :: "rounding \<Rightarrow> fl \<Rightarrow> fl \<Rightarrow> fl" where
  "rsub rnd a b = rounded rnd (fsub a b)"

definition rmul :: "rounding \<Rightarrow> fl \<Rightarrow> fl \<Rightarrow> fl" where
  "rmul rnd a b = rounded rnd (fmul a b)"

definition rdiv :: "rounding \<Rightarrow> fl \<Rightarrow> fl \<Rightarrow> fl" where
  "rdiv rnd a b = rounded rnd (fdiv a b)"

definition rsqrt :: "rounding \<Rightarrow> fl \<Rightarrow> fl" where
  "rsqrt rnd a = rounded rnd (fsqrt a)"

definition rsum :: "rounding \<Rightarrow> fl list \<Rightarrow> fl" where
  "rsum rnd xs = foldl (radd rnd) (Fin 0) xs"

text \<open>
  \<^verbatim>\<open>max_drawdown ** 2\<close>. The power is computed by the C library, whose result is
  within one unit in the last place of the square but need not be the correctly rounded
  product, so it has a rounding \<open>rnd_pow\<close> of its own. The square of a numpy scalar that
  overflows is an infinity; Python's own \<^verbatim>\<open>float\<close> raises \<^verbatim>\<open>OverflowError\<close> instead.
  The flag \<open>np_arith\<close> says that the metrics are numpy scalars, as
  \<^verbatim>\<open>evaluate_strategy\<close> produces them. The list comprehension stops at the first
  exception.
\<close>

definition py_square :: "bool \<Rightarrow> rounding \<Rightarrow> fl \<Rightarrow> error + fl" where
  "py_square np_arith rnd_pow d =
     (let v = rmul rnd_pow d d
      in if \<not> np_arith \<and> (case d of Fin x \<Rightarrow> v = PInf | _ \<Rightarrow> False) then Inl OverflowError
         else Inr v)"

fun collect :: "(error + 'a) list \<Rightarrow> error + 'a list" where
  "collect [] = Inr []"
| "collect (x # xs) =
     (case x of
        Inl e \<Rightarrow> Inl e
      | Inr v \<Rightarrow> (case collect xs of Inl e \<Rightarrow> Inl e | Inr vs \<Rightarrow> Inr (v # vs)))"

text \<open>
  \<^verbatim>\<open>_optimize_weights\<close>, operation by operation. \<^verbatim>\<open>np.sum\<close> is numpy's: the order in
  which it adds depends on the length of the array and on the build (pairwise blocks,
  vector lanes), so it is a parameter \<open>np_sum\<close> of the model.
\<close>

definition covariance_matrix_fp :: "rounding \<Rightarrow> fl list \<Rightarrow> fl list list" where
  "covariance_matrix_fp rnd variances =
     map (\<lambda>i. map (\<lambda>j. rmul rnd (rmul rnd (rsqrt rnd (variances ! i)) (rsqrt rnd (variances ! j)))
                                   (correlation i j))
                   [0 ..< length variances])
         [0 ..< length variances]"

definition optimize_weights_fp ::
  "bool \<Rightarrow> rounding \<Rightarrow> rounding \<Rightarrow> (fl list \<Rightarrow> fl) \<Rightarrow> StrategyScore list
     \<Rightarrow> error + (string \<times> fl) list" where
  "optimize_weights_fp np_arith rnd_pow rnd np_sum scores =
     (if length scores = 0 then Inr []
      else case collect (map (\<lambda>s. py_square np_arith rnd_pow
                                        (m_max_drawdown (performance_metrics s)))
                             scores) of
             Inl e \<Rightarrow> Inl e
           | Inr variances \<Rightarrow>
               (let covariance = covariance_matrix_fp rnd variances;
                    raw = map (\<lambda>c. rdiv rnd (Fin 1) (rsqrt rnd c)) (np_diag covariance);
                    total_weight = np_sum raw;
                    ws = map (\<lambda>w. rdiv rnd w total_weight) raw
                in Inr (foldl (\<lambda>d sw. dict_set d (score_id (fst sw)) (snd sw)) [] (zip scores ws))))"

definition record_portfolio_state_fp :: "rounding \<Rightarrow> StrategyPortfolio \<Rightarrow> nat \<Rightarrow> StrategyPortfolio" where
  "record_portfolio_state_fp rnd p now =
     (let total_allocation = rsum rnd (map (\<lambda>ka. current_allocation (snd ka)) (allocations p));
          state =
            \<lparr>snap_timestamp = now,
             total_capital = current_capital p,
             allocated_capital = total_allocation,
             n_strategies = length (allocations p),
             snap_allocations =
               map (\<lambda>ka. (fst ka,
                           \<lparr>snap_weight = weight (snd ka),
                            snap_allocation = current_allocation (snd ka),
                            snap_metrics = alloc_metrics (snd ka)\<rparr>))
                   (allocations p)\<rparr>
      in p\<lparr>historical_performance := historical_performance p @ [state]\<rparr>)"

definition handle_strategy_removal_fp ::
  "rounding \<Rightarrow> StrategyPortfolio \<Rightarrow> StrategyAllocation \<Rightarrow> StrategyPortfolio" where
  "handle_strategy_removal_fp rnd p allocation =
     p\<lparr>current_capital := radd rnd (current_capital p) (current_allocation allocation)\<rparr>"

definition make_allocation_fp ::
  "rounding \<Rightarrow> fl \<Rightarrow> nat \<Rightarrow> string \<Rightarrow> fl \<Rightarrow> StrategyScore \<Rightarrow> StrategyAllocation" where
  "make_allocation_fp rnd capital now k w score =
     \<lparr>alloc_id = k,
      weight = w,
      max_allocation = py_min (Fin 0.25) (rmul rnd w (Fin 1.5)),
      current_allocation = rmul rnd capital w,
      alloc_metrics = performance_metrics score,
      last_update = now\<rparr>"

definition update_portfolio_fp ::
  "bool \<Rightarrow> rounding \<Rightarrow> rounding \<Rightarrow> (fl list \<Rightarrow> fl) \<Rightarrow> StrategyPortfolio
     \<Rightarrow> StrategyScore list \<Rightarrow> nat \<Rightarrow> error + StrategyPortfolio" where
  "update_portfolio_fp np_arith rnd_pow rnd np_sum p scores now =
     (let valid_strategies = filter (\<lambda>s. fle min_score_threshold (overall_score s)) scores
      in if valid_strategies = [] then Inr p
         else case optimize_weights_fp np_arith rnd_pow rnd np_sum valid_strategies of
                Inl e \<Rightarrow> Inl e
              | Inr weights \<Rightarrow>
                  (let new_allocations =
                         foldl (\<lambda>d kw.
                                  case find (\<lambda>s. score_id s = fst kw) valid_strategies of
                                    None \<Rightarrow> d
                                  | Some score \<Rightarrow>
                                      dict_set d (fst kw)
                                        (make_allocation_fp rnd (current_capital p) now
                                           (fst kw) (snd kw) score))
                               [] weights;
                       removed = filter (\<lambda>ka. fst ka \<notin> set (dict_keys new_allocations))
                                        (allocations p);
                       p1 = foldl (handle_strategy_removal_fp rnd) p (map snd removed)
                   in Inr (record_portfolio_state_fp rnd (p1\<lparr>allocations := new_allocations\<rparr>) now)))"

definition adjust_allocation_fp ::
  "rounding \<Rightarrow> StrategyPortfolio \<Rightarrow> string \<Rightarrow> fl \<Rightarrow> nat \<Rightarrow> StrategyPortfolio" where
  "adjust_allocation_fp rnd p k new_weight now =
     (if k \<notin> set (dict_keys (allocations p)) then p
      else let w = py_min new_weight (Fin 0.25);
               total_other_weight =
                 rsum rnd (map (\<lambda>ka. weight (snd ka))
                               (filter (\<lambda>ka. fst ka \<noteq> k) (allocations p)));
               scaled =
                 (if flt (Fin 0) total_other_weight
                  then let scale_factor = rdiv rnd (rsub rnd (Fin 1) w) total_other_weight
                       in map (\<lambda>ka. if fst ka \<noteq> k
                                     then (fst ka,
                                           (snd ka)\<lparr>weight := rmul rnd (weight (snd ka)) scale_factor,
                                                     current_allocation :=
                                                       rmul rnd (current_capital p)
                                                         (rmul rnd (weight (snd ka)) scale_factor)\<rparr>)
                                     else ka)
                              (allocations p)
                  else allocations p);
               target =
                 map (\<lambda>ka. if fst ka = k
                            then (fst ka, (snd ka)\<lparr>weight := w,
                                                    current_allocation := rmul rnd (current_capital p) w\<rparr>)
                            else ka)
                     scaled
           in record_portfolio_state_fp rnd (p\<lparr>allocations := target\<rparr>) now)"

section \<open>Adaptive learning orchestrator\<close>

record AdaptiveLearningSystem =
  backtest_engine :: BacktestEngine
  evaluator :: StrategyEvaluator
  portfolio :: StrategyPortfolio
  strategies :: "(string \<times> strategy) list"

definition new_system :: "fl \<Rightarrow> AdaptiveLearningSystem" where
  "new_system capital =
     \<lparr>backtest_engine = \<lparr>historical_data = Map.empty, results_cache = Map.empty\<rparr>,
      evaluator = \<lparr>strategy_scores = [], historical_scores = Map.empty\<rparr>,
      portfolio = new_portfolio capital,
      strategies = []\<rparr>"

text \<open>
  \<^verbatim>\<open>add_strategy\<close>: the constructor may raise, and the exception is raised again
  after logging.
\<close>

definition add_strategy ::
  "AdaptiveLearningSystem \<Rightarrow> string \<Rightarrow> ('p \<Rightarrow> error + strategy) \<Rightarrow> 'p
     \<Rightarrow> error + AdaptiveLearningSystem" where
  "add_strategy sys k strategy_class params =
     (case strategy_class params of
        Inl e \<Rightarrow> Inl e
      | Inr strat \<Rightarrow> Inr (sys\<lparr>strategies := dict_set (strategies sys) k strat\<rparr>))"

text \<open>
  The orchestrator's \<^verbatim>\<open>evaluate_strategy\<close> runs one backtest per period with the
  default initial capital and hands the results to the evaluator. Any exception ends
  the call with \<^verbatim>\<open>False\<close>; what the engine cached before it stays.
\<close>

fun run_periods ::
  "indicators \<Rightarrow> BacktestEngine \<Rightarrow> strategy \<Rightarrow> string \<Rightarrow> (nat \<times> nat) list
     \<Rightarrow> BacktestResult list \<Rightarrow> (error + BacktestResult list) \<times> BacktestEngine" where
  "run_periods ind eng strat symbol [] acc = (Inr acc, eng)"
| "run_periods ind eng strat symbol (period # rest) acc =
     (case run_backtest ind eng strat symbol (fst period) (snd period) (Fin 100000) of
        Inl e \<Rightarrow> (Inl e, eng)
      | Inr (result, eng') \<Rightarrow> run_periods ind eng' strat symbol rest (acc @ [result]))"

definition als_evaluate_strategy ::
  "indicators \<Rightarrow> AdaptiveLearningSystem \<Rightarrow> string \<Rightarrow> string \<Rightarrow> (nat \<times> nat) list \<Rightarrow> nat
     \<Rightarrow> bool \<times> AdaptiveLearningSystem" where
  "als_evaluate_strategy ind sys k symbol periods now =
     (case dict_get (strategies sys) k of
        None \<Rightarrow> (False, sys)
      | Some strat \<Rightarrow>
          (case run_periods ind (backtest_engine sys) strat symbol periods [] of
             (Inl e, eng) \<Rightarrow> (False, sys\<lparr>backtest_engine := eng\<rparr>)
           | (Inr results, eng) \<Rightarrow>
               (case evaluate_strategy (evaluator sys) results now of
                  Inl e \<Rightarrow> (False, sys\<lparr>backtest_engine := eng\<rparr>)
                | Inr (score, ev) \<Rightarrow>
                    (fle (Fin 0.4) (overall_score score),
                     sys\<lparr>backtest_engine := eng, evaluator := ev\<rparr>))))"

text \<open>
  The orchestrator's \<^verbatim>\<open>update_portfolio\<close> forwards every cached latest score of at
  least 0.4 to the portfolio. (The log line that follows can raise only after the
  portfolio has been updated, and the exception is swallowed.)
\<close>

definition als_update_portfolio :: "AdaptiveLearningSystem \<Rightarrow> nat \<Rightarrow> AdaptiveLearningSystem" where
  "als_update_portfolio sys now =
     (let scores = filter (\<lambda>score. fle (Fin 0.4) (overall_score score))
                          (map snd (strategy_scores (evaluator sys)))
      in sys\<lparr>portfolio := update_portfolio (portfolio sys) scores now\<rparr>)"

definition retire_strategy :: "AdaptiveLearningSystem \<Rightarrow> string \<Rightarrow> nat \<Rightarrow> AdaptiveLearningSystem" where
  "retire_strategy sys k now =
     (if k \<in> set (dict_keys (strategies sys))
      then let p1 = (if k \<in> set (dict_keys (allocations (portfolio sys)))
                     then adjust_allocation (portfolio sys) k (Fin 0) now
                     else portfolio sys)
           in als_update_portfolio
                (sys\<lparr>portfolio := p1, strategies := dict_del (strategies sys) k\<rparr>) now
      else sys)"

text \<open>
  \<^verbatim>\<open>get_strategy_recommendation\<close>. The loop visits the registry; a strategy with an
  allocation and a non-zero signal is recorded with its weight and its confidence, and
  its weight is added to the total. Calling \<^verbatim>\<open>get_confidence\<close> on an object without
  that method raises \<^verbatim>\<open>AttributeError\<close>. The final division raises
  \<^verbatim>\<open>ZeroDivisionError\<close> on a zero total of plain Python floats and follows IEEE 754 on
  numpy scalars; \<open>np_arith\<close> says which kind of number reaches it. Every exception is
  caught and answered with HOLD at confidence 0.0.
\<close>

datatype action = BUY | SELL | HOLD

record contribution =
  c_signal :: int
  c_weight :: fl
  c_confidence :: fl

record recommendation =
  rec_action :: action
  rec_confidence :: fl
  contributing_strategies :: "(string \<times> contribution) list option"

definition rec_step ::
  "StrategyPortfolio \<Rightarrow> string
     \<Rightarrow> error + ((string \<times> contribution) list \<times> fl) \<Rightarrow> string \<times> strategy
     \<Rightarrow> error + ((string \<times> contribution) list \<times> fl)" where
  "rec_step p symbol st ks =
     (case st of
        Inl e \<Rightarrow> Inl e
      | Inr (recommendations, total_weight) \<Rightarrow>
          (case dict_get (allocations p) (fst ks) of
             None \<Rightarrow> Inr (recommendations, total_weight)
           | Some allocation \<Rightarrow>
               (let signal = generate_signal (snd ks) (Symbol symbol)
                in if signal \<noteq> 0
                   then (case get_confidence (snd ks) of
                           None \<Rightarrow> Inl AttributeError
                         | Some conf \<Rightarrow>
                             Inr (dict_set recommendations (fst ks)
                                    \<lparr>c_signal = signal, c_weight = weight allocation,
                                     c_confidence = conf\<rparr>,
                                  fadd total_weight (weight allocation)))
                   else Inr (recommendations, total_weight))))"

definition py_truediv :: "bool \<Rightarrow> fl \<Rightarrow> fl \<Rightarrow> error + fl" where
  "py_truediv np_arith a b =
     (if \<not> np_arith \<and> b = Fin 0 then Inl ZeroDivisionError else Inr (fdiv a b))"

definition hold_fallback :: recommendation where
  "hold_fallback = \<lparr>rec_action = HOLD, rec_confidence = Fin 0, contributing_strategies = None\<rparr>"

definition get_strategy_recommendation ::
  "bool \<Rightarrow> AdaptiveLearningSystem \<Rightarrow> string \<Rightarrow> recommendation" where
  "get_strategy_recommendation np_arith sys symbol =
     (case foldl (rec_step (portfolio sys) symbol) (Inr ([], Fin 0)) (strategies sys) of
        Inl e \<Rightarrow> hold_fallback
      | Inr (recommendations, total_weight) \<Rightarrow>
          (if recommendations = [] then hold_fallback
           else case py_truediv np_arith
                       (py_sum (map (\<lambda>kr. fmul (fmul (Fin (of_int (c_signal (snd kr))))
                                                      (c_weight (snd kr)))
                                                (c_confidence (snd kr)))
                                    recommendations))
                       total_weight of
                  Inl e \<Rightarrow> hold_fallback
                | Inr weighted_signal \<Rightarrow>
                    \<lparr>rec_action = (if flt (Fin 0.2) weighted_signal then BUY
                                   else if flt weighted_signal (Fin (- 0.2)) then SELL
                                   else HOLD),
                     rec_confidence = fabs weighted_signal,
                     contributing_strategies = Some recommendations\<rparr>))"

text \<open>
  The states a system can be in: a fresh system; historical data stored in the engine
  (the source leaves the loading to its caller); and the orchestrator's operations.
\<close>

inductive reachable :: "indicators \<Rightarrow> AdaptiveLearningSystem \<Rightarrow> bool" for ind :: indicators where
  start: "reachable ind (new_system capital)"
| data: "reachable ind sys \<Longrightarrow>
         reachable ind
           (sys\<lparr>backtest_engine :=
                  (backtest_engine sys)
                    \<lparr>historical_data := (historical_data (backtest_engine sys))(key \<mapsto> bars)\<rparr>\<rparr>)"
| added: "reachable ind sys \<Longrightarrow>
          add_strategy sys k (strategy_class :: unit \<Rightarrow> error + strategy) () = Inr sys' \<Longrightarrow>
          reachable ind sys'"
| evaluated: "reachable ind sys \<Longrightarrow>
              reachable ind (snd (als_evaluate_strategy ind sys k symbol periods now))"
| updated: "reachable ind sys \<Longrightarrow> reachable ind (als_update_portfolio sys now)"
| retired: "reachable ind sys \<Longrightarrow> reachable ind (retire_strategy sys k now)"

section \<open>Auxiliary notions for the statements\<close>

text \<open>The cached latest scores that the orchestrator forwards to the portfolio.\<close>

definition cached_valid_scores :: "AdaptiveLearningSystem \<Rightarrow> StrategyScore list" where
  "cached_valid_scores sys =
     filter (\<lambda>sc. fle (Fin 0.4) (overall_score sc)) (map snd (strategy_scores (evaluator sys)))"

text \<open>The real number behind a finite value, and the reciprocal of a score's drawdown.\<close>

definition fin_val :: "fl \<Rightarrow> real" where
  "fin_val a = (case a of Fin x \<Rightarrow> x | _ \<Rightarrow> 0)"

definition inverse_risk :: "StrategyScore \<Rightarrow> real" where
  "inverse_risk s = 1 / \<bar>fin_val (m_max_drawdown (performance_metrics s))\<bar>"

text \<open>The tolerance of the weight-sum invariant: within one millionth of 1.\<close>

definition near_one :: "fl \<Rightarrow> bool" where
  "near_one a = fle (fabs (fsub a (Fin 1))) (Fin (1 / 1000000))"

text \<open>
  What IEEE 754 guarantees of \<^verbatim>\<open>float64\<close>, stated with room to spare. A result whose
  magnitude is at most \<open>2\<^sup>1\<^sup>0\<^sup>2\<^sup>3\<close> is stored as a finite number that differs from it
  by at most \<open>2\<^sup>-\<^sup>5\<^sup>2\<close> times its magnitude plus \<open>2\<^sup>-\<^sup>1\<^sup>0\<^sup>7\<^sup>4\<close> (round-to-nearest
  achieves half of each), and a result that is not negative is not stored as a negative
  number. A sum of at most 1000 non-negative numbers, in whatever order \<^verbatim>\<open>np.sum\<close>
  adds them, is off by at most the error of that many roundings. \<open>in_range k x\<close> says
  that \<open>x\<close> lies between \<open>2\<^sup>-\<^sup>k\<close> and \<open>2\<^sup>k\<close>.
\<close>

definition float_max :: real where
  "float_max = 2 ^ 1023"

definition float_eps :: real where
  "float_eps = 1 / 2 ^ 52"

definition float_tiny :: real where
  "float_tiny = 1 / 2 ^ 1074"

definition ieee_rounding :: "rounding \<Rightarrow> bool" where
  "ieee_rounding rnd =
     (\<forall>x. \<bar>x\<bar> \<le> float_max
          \<longrightarrow> (\<exists>y. rnd x = Fin y \<and> \<bar>y - x\<bar> \<le> float_eps * \<bar>x\<bar> + float_tiny \<and> (0 \<le> x \<longrightarrow> 0 \<le> y)))"

definition ieee_summation :: "(fl list \<Rightarrow> fl) \<Rightarrow> bool" where
  "ieee_summation np_sum =
     (\<forall>xs. length xs \<le> 1000 \<and> (\<forall>x\<in>set xs. 0 \<le> x) \<and> 2 * sum_list xs \<le> float_max
           \<longrightarrow> (\<exists>s. np_sum (map Fin xs) = Fin s
                     \<and> \<bar>s - sum_list xs\<bar>
                         \<le> real (length xs) * (2 * float_eps * sum_list xs + 2 * float_tiny)))"

definition in_range :: "nat \<Rightarrow> real \<Rightarrow> bool" where
  "in_range k x = (1 / 2 ^ k \<le> x \<and> x \<le> 2 ^ k)"



text \<open>
  The recommendation in the words of the specification: the contributing strategies are
  the registered ones that have an allocation and a non-zero signal, and the weighted
  signal is the sum of signal times weight times confidence over them, divided by the
  sum of their weights. A strategy without \<^verbatim>\<open>get_confidence\<close> counts with confidence 1
  there.
\<close>

definition contributes :: "StrategyPortfolio \<Rightarrow> string \<Rightarrow> string \<times> strategy \<Rightarrow> bool" where
  "contributes p symbol ks =
     (dict_get (allocations p) (fst ks) \<noteq> None \<and> generate_signal (snd ks) (Symbol symbol) \<noteq> 0)"

definition allocated_weight :: "StrategyPortfolio \<Rightarrow> string \<Rightarrow> fl" where
  "allocated_weight p k = (case dict_get (allocations p) k of None \<Rightarrow> Fin 0 | Some a \<Rightarrow> weight a)"

definition the_confidence :: "strategy \<Rightarrow> fl" where
  "the_confidence strat = (case get_confidence strat of None \<Rightarrow> Fin 1 | Some c \<Rightarrow> c)"

definition contribution_of :: "StrategyPortfolio \<Rightarrow> string \<Rightarrow> string \<times> strategy \<Rightarrow> string \<times> contribution" where
  "contribution_of p symbol ks =
     (fst ks, \<lparr>c_signal = generate_signal (snd ks) (Symbol symbol),
               c_weight = allocated_weight p (fst ks),
               c_confidence = the_confidence (snd ks)\<rparr>)"

definition contributing :: "AdaptiveLearningSystem \<Rightarrow> string \<Rightarrow> (string \<times> strategy) list" where
  "contributing sys symbol = filter (contributes (portfolio sys) symbol) (strategies sys)"

definition weighted_signal :: "AdaptiveLearningSystem \<Rightarrow> string \<Rightarrow> fl" where
  "weighted_signal sys symbol =
     fdiv (py_sum (map (\<lambda>ks. fmul (fmul (Fin (of_int (generate_signal (snd ks) (Symbol symbol))))
                                      (allocated_weight (portfolio sys) (fst ks)))
                                (the_confidence (snd ks)))
                       (contributing sys symbol)))
          (py_sum (map (\<lambda>ks. allocated_weight (portfolio sys) (fst ks)) (contributing sys symbol)))"

text \<open>The result of a backtest run that did not raise.\<close>

definition result_of :: "error + (BacktestResult \<times> BacktestEngine) \<Rightarrow> BacktestResult option" where
  "result_of r = (case r of Inl e \<Rightarrow> None | Inr re \<Rightarrow> Some (fst re))"

section \<open>Example inputs\<close>

text \<open>
  A strategy that never signals, twenty bars at a constant price, and the indicator
  values pandas yields on a window of exactly twenty rows: every rolling statistic over
  twenty periods is NaN there.
\<close>

definition flat_strategy :: strategy where
  "flat_strategy = \<lparr>sid = ''flat'', generate_signal = (\<lambda>x. 0), get_confidence = Some (Fin 1)\<rparr>"

definition nan_indicators :: indicators where
  "nan_indicators data window = Inr (NaN, NaN, NaN)"

definition flat_bars :: "bar list" where
  "flat_bars = map (\<lambda>i. \<lparr>bar_name = i, close = Fin 100\<rparr>) [0 ..< 20]"

definition flat_engine :: BacktestEngine where
  "flat_engine = \<lparr>historical_data = [(''X'', 0, 19) \<mapsto> flat_bars], results_cache = Map.empty\<rparr>"

definition flat_result :: BacktestResult where
  "flat_result =
     \<lparr>strategy_id = ''flat'', start_date = 0, end_date = 19, returns = [], trades = [],
      sharpe_ratio = Fin 0, max_drawdown = Fin 0, win_rate = Fin 0, profit_factor = PInf,
      risk_adjusted_return = Fin 0,
      market_conditions = [(''start'', SIDEWAYS), (''middle'', SIDEWAYS), (''end'', SIDEWAYS)]\<rparr>"

text \<open>
  Scores as the evaluator builds them, with a chosen overall score and drawdown, and
  portfolios obtained from a fresh one by \<^verbatim>\<open>update_portfolio\<close>.
\<close>

definition example_metrics :: "real \<Rightarrow> metrics" where
  "example_metrics dd =
     \<lparr>m_sharpe_ratio = Fin 1, m_max_drawdown = Fin dd, m_win_rate = Fin 0.5,
      m_profit_factor = Fin 1.5, m_risk_adjusted_return = Fin 0.5\<rparr>"

definition example_score :: "string \<Rightarrow> real \<Rightarrow> real \<Rightarrow> StrategyScore" where
  "example_score k overall dd =
     \<lparr>score_id = k, overall_score = Fin overall, performance_metrics = example_metrics dd,
      market_adaptability = map (\<lambda>c. (c, Fin 0)) [BULL, BEAR, SIDEWAYS, VOLATILE, LOW_VOLATILITY],
      consistency_score = Fin 0, timestamp = 0\<rparr>"

definition three_scores :: "real \<Rightarrow> StrategyScore list" where
  "three_scores dd = [example_score ''A'' 0.5 dd, example_score ''B'' 0.5 dd, example_score ''C'' 0.5 dd]"

definition single_portfolio :: StrategyPortfolio where
  "single_portfolio =
     update_portfolio (new_portfolio (Fin 1000000)) [example_score ''A'' 0.5 0.1] 10"

definition three_portfolio :: StrategyPortfolio where
  "three_portfolio = update_portfolio (new_portfolio (Fin 1000000)) (three_scores 0.1) 10"

text \<open>
  A rounding that is not exact: every result is stored too large in magnitude by half a
  unit in the last place.
\<close>

definition rounding_up :: rounding where
  "rounding_up x = Fin (x + x / 2 ^ 53)"



text \<open>
  Strategies with a constant signal, the system of Scenario E (signals 1 and -1,
  confidences 0.8 and 0.5, and the weights 0.6 and 0.4 that \<^verbatim>\<open>update_portfolio\<close>
  gives to drawdowns of one third and one half), and a system whose only strategy is
  allocated, signals 1 and has no \<^verbatim>\<open>get_confidence\<close>.
\<close>

definition signal_strategy :: "string \<Rightarrow> int \<Rightarrow> fl option \<Rightarrow> strategy" where
  "signal_strategy k sig conf = \<lparr>sid = k, generate_signal = (\<lambda>x. sig), get_confidence = conf\<rparr>"

definition portfolio_e :: StrategyPortfolio where
  "portfolio_e =
     update_portfolio (new_portfolio (Fin 1000000))
       [example_score ''A'' 0.5 (1 / 3), example_score ''B'' 0.5 (1 / 2)] 10"

definition system_e :: AdaptiveLearningSystem where
  "system_e =
     (new_system (Fin 1000000))
       \<lparr>portfolio := portfolio_e,
        strategies :=
          [(''A'', signal_strategy ''A'' 1 (Some (Fin 0.8))),
           (''B'', signal_strategy ''B'' (- 1) (Some (Fin 0.5)))]\<rparr>"

definition system_no_confidence :: AdaptiveLearningSystem where
  "system_no_confidence =
     (new_system (Fin 1000000))
       \<lparr>portfolio := single_portfolio,
        strategies := [(''A'', signal_strategy ''A'' 1 None)]\<rparr>"

text \<open>
  A run with two trades. The strategy signals 1 on the first and on the third bar and 0
  afterwards; over twenty bars it buys at 100, sells at 150, buys at 100 and sells at
  95. The system registers it, evaluates it on that period and updates the portfolio.
\<close>

definition trend_strategy :: strategy where
  "trend_strategy =
     \<lparr>sid = ''T'',
      generate_signal =
        (\<lambda>inp. case inp of
                  Prefix bs \<Rightarrow> (if length bs = 1 \<or> length bs = 3 then 1 else 0)
                | Symbol s \<Rightarrow> 1),
      get_confidence = Some (Fin 1)\<rparr>"

definition trend_bars :: "bar list" where
  "trend_bars =
     [\<lparr>bar_name = 0, close = Fin 100\<rparr>, \<lparr>bar_name = 1, close = Fin 150\<rparr>,
      \<lparr>bar_name = 2, close = Fin 100\<rparr>, \<lparr>bar_name = 3, close = Fin 95\<rparr>]
     @ map (\<lambda>i. \<lparr>bar_name = i, close = Fin 100\<rparr>) [4 ..< 20]"

definition trend_trades :: "trade list" where
  "trend_trades =
     [\<lparr>entry_time = 0, exit_time = 1, entry_price = Fin 100, exit_price = Fin 150,
       trade_type = Long, pnl = Fin 1000\<rparr>,
      \<lparr>entry_time = 2, exit_time = 3, entry_price = Fin 100, exit_price = Fin 95,
       trade_type = Long, pnl = Fin (- 101)\<rparr>]"

definition even_trades :: "trade list" where
  "even_trades =
     [\<lparr>entry_time = 0, exit_time = 1, entry_price = Fin 100, exit_price = Fin 100,
       trade_type = Long, pnl = Fin 0\<rparr>,
      \<lparr>entry_time = 2, exit_time = 3, entry_price = Fin 100, exit_price = Fin 100,
       trade_type = Long, pnl = Fin 0\<rparr>]"

definition trend_sharpe :: fl where
  "trend_sharpe = calculate_sharpe_ratio [Fin (1 / 100), Fin (- (101 / 100000))] (Fin (1 / 50))"

definition trend_rar :: fl where
  "trend_rar = calculate_risk_adjusted_return [Fin (1 / 100), Fin (- (101 / 100000))]"

definition trend_result :: BacktestResult where
  "trend_result =
     \<lparr>strategy_id = ''T'', start_date = 0, end_date = 19,
      returns = [Fin (1 / 100), Fin (- (101 / 100000))], trades = trend_trades,
      sharpe_ratio = trend_sharpe, max_drawdown = Fin (101 / 100000), win_rate = Fin (1 / 2),
      profit_factor = Fin (1000 / 101), risk_adjusted_return = trend_rar,
      market_conditions = [(''start'', SIDEWAYS), (''middle'', SIDEWAYS), (''end'', SIDEWAYS)]\<rparr>"

definition trend_metrics :: metrics where
  "trend_metrics =
     \<lparr>m_sharpe_ratio = np_mean [trend_sharpe], m_max_drawdown = np_mean [Fin (101 / 100000)],
      m_win_rate = np_mean [Fin (1 / 2)], m_profit_factor = np_mean [Fin (1000 / 101)],
      m_risk_adjusted_return = np_mean [trend_rar]\<rparr>"

definition trend_score :: StrategyScore where
  "trend_score =
     \<lparr>score_id = ''T'',
      overall_score =
        calculate_overall_score trend_metrics (analyze_market_adaptability [trend_result]) (Fin 0),
      performance_metrics = trend_metrics,
      market_adaptability = analyze_market_adaptability [trend_result],
      consistency_score = Fin 0,
      timestamp = 30\<rparr>"

definition trend_engine :: BacktestEngine where
  "trend_engine = \<lparr>historical_data = [(''SYM'', 0, 19) \<mapsto> trend_bars], results_cache = Map.empty\<rparr>"

definition system_loaded :: AdaptiveLearningSystem where
  "system_loaded = (new_system (Fin 1000000))\<lparr>backtest_engine := trend_engine\<rparr>"

definition system_added :: AdaptiveLearningSystem where
  "system_added = system_loaded\<lparr>strategies := [(''T'', trend_strategy)]\<rparr>"

definition system_evaluated :: AdaptiveLearningSystem where
  "system_evaluated =
     snd (als_evaluate_strategy nan_indicators system_added ''T'' ''SYM'' [(0, 19)] 30)"

definition trend_system :: AdaptiveLearningSystem where
  "trend_system = als_update_portfolio system_evaluated 31"

section \<open>Lemmas on sums and dictionaries\<close>

lemma foldl_fadd_Fin: "foldl fadd (Fin a) (map Fin xs) = Fin (a + sum_list xs)"
  by (induction xs arbitrary: a) simp_all

lemma py_sum_Fin: "py_sum (map Fin xs) = Fin (sum_list xs)"
  by (simp add: py_sum_def foldl_fadd_Fin)

lemma py_sum_map_Fin: "py_sum (map (\<lambda>x. Fin (f x)) xs) = Fin (sum_list (map f xs))"
  using py_sum_Fin [of "map f xs"] by (simp add: comp_def)

lemma np_diag_covariance:
  "np_diag (covariance_matrix vs) = map (\<lambda>v. fmul (fmul (fsqrt v) (fsqrt v)) (Fin 1)) vs"
  by (rule nth_equalityI) (simp_all add: np_diag_def covariance_matrix_def correlation_def)

lemma dict_set_fresh: "k \<notin> fst ` set d \<Longrightarrow> dict_set d k v = d @ [(k, v)]"
  by (induction d) auto

lemma recorded_allocations [simp]: "allocations (record_portfolio_state p now) = allocations p"
  by (simp add: record_portfolio_state_def Let_def)

lemma removal_allocations [simp]:
  "allocations (foldl handle_strategy_removal p xs) = allocations p"
  by (induction xs arbitrary: p) (simp_all add: handle_strategy_removal_def)

lemma removal_history [simp]:
  "historical_performance (foldl handle_strategy_removal p xs) = historical_performance p"
  by (induction xs arbitrary: p) (simp_all add: handle_strategy_removal_def)

lemma weights_dict:
  "distinct (map score_id scores) \<Longrightarrow> score_id ` set scores \<inter> fst ` set d = {}
     \<Longrightarrow> foldl (\<lambda>d sw. dict_set d (score_id (fst sw)) (snd sw)) d (map (\<lambda>s. (s, f s)) scores)
         = d @ map (\<lambda>s. (score_id s, f s)) scores"
proof (induction scores arbitrary: d)
  case Nil
  then show ?case by simp
next
  case (Cons s scores)
  have fresh: "score_id s \<notin> fst ` set d" using Cons.prems(2) by auto
  have "score_id ` set scores \<inter> fst ` set (d @ [(score_id s, f s)]) = {}"
    using Cons.prems by auto
  with Cons.IH [of "d @ [(score_id s, f s)]"] Cons.prems(1) fresh
  show ?case by (simp add: dict_set_fresh)
qed

lemma sum_list_positive:
  "xs \<noteq> [] \<Longrightarrow> \<forall>x\<in>set xs. 0 < (f x :: real) \<Longrightarrow> 0 < sum_list (map f xs)"
proof (induction xs)
  case Nil
  then show ?case by simp
next
  case (Cons x xs)
  show ?case
  proof (cases "xs = []")
    case True
    with Cons.prems show ?thesis by simp
  next
    case False
    with Cons have "0 < sum_list (map f xs)" by simp
    moreover have "0 < f x" using Cons.prems by simp
    ultimately show ?thesis by simp
  qed
qed

lemma optimize_weights_finite:
  assumes ne: "scores \<noteq> []"
    and dist: "distinct (map score_id scores)"
    and fin: "\<forall>s\<in>set scores. \<exists>d. m_max_drawdown (performance_metrics s) = Fin d \<and> d \<noteq> 0"
  shows "optimize_weights scores =
           map (\<lambda>s. (score_id s, Fin (inverse_risk s / sum_list (map inverse_risk scores)))) scores"
    and "0 < sum_list (map inverse_risk scores)"
proof -
  let ?S = "sum_list (map inverse_risk scores)"
  have pos: "\<forall>s\<in>set scores. 0 < inverse_risk s"
    using fin by (auto simp: inverse_risk_def fin_val_def)
  then show S: "0 < ?S" using ne by (simp add: sum_list_positive)
  have pt: "fdiv (Fin 1) (fsqrt (fmul (fmul (fsqrt (fmul (m_max_drawdown (performance_metrics s))
                                                         (m_max_drawdown (performance_metrics s))))
                                           (fsqrt (fmul (m_max_drawdown (performance_metrics s))
                                                         (m_max_drawdown (performance_metrics s)))))
                                     (Fin 1)))
            = Fin (inverse_risk s)" if "s \<in> set scores" for s
  proof -
    from fin that obtain d where d: "m_max_drawdown (performance_metrics s) = Fin d" "d \<noteq> 0"
      by blast
    then show ?thesis
      by (simp add: inverse_risk_def fin_val_def real_sqrt_mult flip: abs_mult)
  qed
  have raw: "map (\<lambda>c. fdiv (Fin 1) (fsqrt c))
               (np_diag (covariance_matrix
                  (map (\<lambda>s. fmul (m_max_drawdown (performance_metrics s))
                                 (m_max_drawdown (performance_metrics s))) scores)))
             = map (\<lambda>s. Fin (inverse_risk s)) scores"
    by (simp add: np_diag_covariance pt)
  have ws: "zip scores (map (\<lambda>w. fdiv w (Fin ?S)) (map (\<lambda>s. Fin (inverse_risk s)) scores))
            = map (\<lambda>s. (s, Fin (inverse_risk s / ?S))) scores"
    using S by (simp add: zip_map2 zip_same_conv_map)
  show "optimize_weights scores = map (\<lambda>s. (score_id s, Fin (inverse_risk s / ?S))) scores"
    unfolding optimize_weights_def Let_def raw py_sum_map_Fin ws
    using ne weights_dict [OF dist, of "[]"] by simp
qed

lemma find_distinct:
  "distinct (map f xs) \<Longrightarrow> x \<in> set xs \<Longrightarrow> find (\<lambda>y. f y = f x) xs = Some x"
  by (induction xs) (auto simp: image_iff)

lemma allocations_dict:
  "distinct (map score_id xs) \<Longrightarrow> set xs \<subseteq> set valid \<Longrightarrow> distinct (map score_id valid)
     \<Longrightarrow> score_id ` set xs \<inter> fst ` set d = {}
     \<Longrightarrow> foldl (\<lambda>d kw. case find (\<lambda>s. score_id s = fst kw) valid of
                           None \<Rightarrow> d
                         | Some score \<Rightarrow> dict_set d (fst kw) (mk (fst kw) (snd kw) score))
               d (map (\<lambda>s. (score_id s, g s)) xs)
         = d @ map (\<lambda>s. (score_id s, mk (score_id s) (g s) s)) xs"
proof (induction xs arbitrary: d)
  case Nil
  then show ?case by simp
next
  case (Cons s xs)
  have fresh: "score_id s \<notin> fst ` set d" using Cons.prems(4) by auto
  have found: "find (\<lambda>y. score_id y = score_id s) valid = Some s"
    using Cons.prems(2,3) by (simp add: find_distinct)
  have "score_id ` set xs \<inter> fst ` set (d @ [(score_id s, mk (score_id s) (g s) s)]) = {}"
    using Cons.prems by auto
  with Cons.IH [of "d @ [(score_id s, mk (score_id s) (g s) s)]"] Cons.prems fresh found
  show ?case by (simp add: dict_set_fresh)
qed

lemma sum_list_divide: "sum_list (map (\<lambda>x. f x / c) xs) = sum_list (map f xs) / (c::real)"
  by (induction xs) (simp_all add: add_divide_distrib)

lemma update_portfolio_allocations:
  assumes valid: "valid = filter (\<lambda>s. fle min_score_threshold (overall_score s)) scores"
    and ne: "valid \<noteq> []"
    and dist: "distinct (map score_id valid)"
    and fin: "\<forall>s\<in>set valid. \<exists>d. m_max_drawdown (performance_metrics s) = Fin d \<and> d \<noteq> 0"
  shows "allocations (update_portfolio p scores now) =
           map (\<lambda>s. (score_id s,
                      make_allocation (current_capital p) now (score_id s)
                        (Fin (inverse_risk s / sum_list (map inverse_risk valid))) s))
               valid"
proof -
  have w: "optimize_weights valid =
             map (\<lambda>s. (score_id s, Fin (inverse_risk s / sum_list (map inverse_risk valid)))) valid"
    by (rule optimize_weights_finite(1) [OF ne dist fin])
  show ?thesis
    using ne allocations_dict [OF dist subset_refl dist, of "[]"]
    by (simp add: update_portfolio_def Let_def valid [symmetric] w)
qed

lemma three_scores_valid:
  "filter (\<lambda>s. fle min_score_threshold (overall_score s)) (three_scores dd) = three_scores dd"
  by (simp add: three_scores_def example_score_def min_score_threshold_def)

lemma three_portfolio_allocations:
  "allocations three_portfolio =
     [(''A'', make_allocation (Fin 1000000) 10 ''A'' (Fin (1 / 3)) (example_score ''A'' 0.5 0.1)),
      (''B'', make_allocation (Fin 1000000) 10 ''B'' (Fin (1 / 3)) (example_score ''B'' 0.5 0.1)),
      (''C'', make_allocation (Fin 1000000) 10 ''C'' (Fin (1 / 3)) (example_score ''C'' 0.5 0.1))]"
proof -
  have ne: "three_scores 0.1 \<noteq> []" by (simp add: three_scores_def)
  have dist: "distinct (map score_id (three_scores 0.1))"
    by (simp add: three_scores_def example_score_def)
  have fin: "\<forall>s\<in>set (three_scores 0.1). \<exists>d. m_max_drawdown (performance_metrics s) = Fin d \<and> d \<noteq> 0"
    by (intro ballI exI [of _ "1 / 10"])
       (auto simp: three_scores_def example_score_def example_metrics_def)
  show ?thesis
    unfolding three_portfolio_def
      update_portfolio_allocations [OF three_scores_valid [symmetric] ne dist fin]
    by (simp add: three_scores_def example_score_def example_metrics_def inverse_risk_def
          fin_val_def new_portfolio_def)
qed

lemma single_allocations:
  "allocations single_portfolio =
     [(''A'', make_allocation (Fin 1000000) 10 ''A'' (Fin 1) (example_score ''A'' 0.5 0.1))]"
proof -
  let ?v = "[example_score ''A'' 0.5 0.1]"
  have valid: "?v = filter (\<lambda>s. fle min_score_threshold (overall_score s)) ?v"
    by (simp add: example_score_def min_score_threshold_def)
  have fin: "\<forall>s\<in>set ?v. \<exists>d. m_max_drawdown (performance_metrics s) = Fin d \<and> d \<noteq> 0"
    by (intro ballI exI [of _ "1 / 10"]) (auto simp: example_score_def example_metrics_def)
  have "allocations (update_portfolio (new_portfolio (Fin 1000000)) ?v 10) =
          map (\<lambda>s. (score_id s,
                     make_allocation (current_capital (new_portfolio (Fin 1000000))) 10 (score_id s)
                       (Fin (inverse_risk s / sum_list (map inverse_risk ?v))) s)) ?v"
    by (rule update_portfolio_allocations [OF valid _ _ fin]) simp_all
  then show ?thesis
    by (simp add: single_portfolio_def inverse_risk_def example_score_def example_metrics_def
          fin_val_def new_portfolio_def)
qed

lemma single_adjust:
  "weights_total (adjust_allocation single_portfolio ''A'' (Fin 0.1) 20) = Fin 0.1"
  by (simp add: weights_total_def adjust_allocation_def single_allocations dict_keys_def
        Let_def py_sum_def py_min_def make_allocation_def)

section \<open>Lemmas on rounded arithmetic\<close>

lemma float_consts: "0 < float_eps" "0 < float_tiny" "0 < float_max" "float_eps \<le> 1 / 4"
  by (simp_all add: float_eps_def float_tiny_def float_max_def)

lemma exact_rounding: "ieee_rounding Fin"
  using float_consts by (simp add: ieee_rounding_def)

lemma exact_summation: "ieee_summation py_sum"
  using float_consts by (auto simp: ieee_summation_def py_sum_Fin intro!: mult_nonneg_nonneg add_nonneg_nonneg sum_list_nonneg)

lemma rounding_step:
  assumes "ieee_rounding rnd" "\<bar>x\<bar> \<le> float_max"
  obtains y where "rnd x = Fin y" "\<bar>y - x\<bar> \<le> float_eps * \<bar>x\<bar> + float_tiny" "0 \<le> x \<Longrightarrow> 0 \<le> y"
  using assms unfolding ieee_rounding_def by blast

lemma range_pos: "in_range k x \<Longrightarrow> 0 < x"
proof -
  assume "in_range k x"
  then have "1 / 2 ^ k \<le> x" by (simp add: in_range_def)
  moreover have "(0::real) < 1 / 2 ^ k" by simp
  ultimately show ?thesis by linarith
qed

lemma range_mono: "in_range j x \<Longrightarrow> j \<le> k \<Longrightarrow> in_range k x"
proof -
  assume a: "in_range j x" "j \<le> k"
  have "(2::real) ^ j \<le> 2 ^ k" using a(2) by (simp add: power_increasing)
  moreover have "1 / (2::real) ^ k \<le> 1 / 2 ^ j" using a(2) by (simp add: power_increasing frac_le)
  ultimately show ?thesis using a(1) unfolding in_range_def by linarith
qed

lemma range_mult: "in_range j x \<Longrightarrow> in_range k y \<Longrightarrow> in_range (j + k) (x * y)"
proof -
  assume a: "in_range j x" "in_range k y"
  have x: "0 < x" "0 < y" using a by (auto dest: range_pos)
  have "x * y \<le> 2 ^ j * 2 ^ k"
    using a x by (intro mult_mono) (simp_all add: in_range_def)
  moreover have "(1 / 2 ^ j) * (1 / 2 ^ k) \<le> x * y"
    using a x by (intro mult_mono) (simp_all add: in_range_def)
  ultimately show ?thesis by (simp add: in_range_def power_add)
qed

lemma range_inverse: "in_range k x \<Longrightarrow> in_range k (1 / x)"
proof -
  assume a: "in_range k x"
  have x: "0 < x" using a by (rule range_pos)
  have "1 / x \<le> 1 / (1 / 2 ^ k)" using a x by (intro frac_le) (simp_all add: in_range_def)
  moreover have "1 / 2 ^ k \<le> 1 / x" using a x by (intro frac_le) (simp_all add: in_range_def)
  ultimately show ?thesis by (simp add: in_range_def)
qed

lemma range_sqrt: "in_range (2 * k) x \<Longrightarrow> in_range k (sqrt x)"
proof -
  assume a: "in_range (2 * k) x"
  have e: "(2::real) ^ (2 * k) = (2 ^ k)\<^sup>2" by (simp add: power_mult power2_eq_square flip: power_add mult_2)
  have "sqrt x \<le> sqrt ((2 ^ k)\<^sup>2)" using a unfolding in_range_def e by (simp only: real_sqrt_le_iff)
  moreover have "sqrt ((1 / 2 ^ k)\<^sup>2) \<le> sqrt x"
    using a unfolding in_range_def e by (simp only: real_sqrt_le_iff power_one_over power_divide one_power2)
  ultimately show ?thesis by (simp add: in_range_def)
qed

lemma range_round:
  assumes rnd: "ieee_rounding rnd" and x: "in_range k x" and k: "k \<le> 1000"
  shows "\<exists>y. rnd x = Fin y \<and> in_range (Suc k) y"
proof -
  have pos: "0 < x" using x by (rule range_pos)
  have "x \<le> 2 ^ k" using x by (simp add: in_range_def)
  also have "(2::real) ^ k \<le> 2 ^ 1023" using k by (intro power_increasing) simp_all
  finally have "\<bar>x\<bar> \<le> float_max" using pos by (simp add: float_max_def)
  from rounding_step [OF rnd this] obtain y where
    y: "rnd x = Fin y" "\<bar>y - x\<bar> \<le> float_eps * \<bar>x\<bar> + float_tiny" by blast
  have "(2::real) ^ (k + 2) \<le> 2 ^ 1074" using k by (intro power_increasing) simp_all
  then have "1 / (2::real) ^ 1074 \<le> 1 / 2 ^ (k + 2)" by (intro frac_le) simp_all
  then have "float_tiny \<le> (1 / 2 ^ k) / 4" by (simp add: float_tiny_def)
  also have "\<dots> \<le> x / 4" using x by (simp add: in_range_def)
  finally have t: "float_tiny \<le> x / 4" .
  have "float_eps * \<bar>x\<bar> \<le> (1 / 4) * \<bar>x\<bar>" using float_consts(4) by (intro mult_right_mono) simp_all
  then have e: "float_eps * \<bar>x\<bar> \<le> x / 4" using pos by simp
  from y(2) t e have "x / 2 \<le> y" "y \<le> 2 * x" using pos by linarith+
  moreover have "1 / 2 ^ Suc k \<le> x / 2" "2 * x \<le> 2 ^ Suc k" using x by (simp_all add: in_range_def)
  ultimately have "in_range (Suc k) y" unfolding in_range_def by linarith
  with y(1) show ?thesis by blast
qed

lemma rounding_up_ieee: "ieee_rounding rounding_up"
  unfolding ieee_rounding_def
proof (intro allI impI)
  fix x :: real
  have "\<bar>x / 2 ^ 53\<bar> \<le> float_eps * \<bar>x\<bar>" by (simp add: float_eps_def abs_divide)
  with float_consts(2) have a: "\<bar>x + x / 2 ^ 53 - x\<bar> \<le> float_eps * \<bar>x\<bar> + float_tiny" by simp
  have b: "0 \<le> x \<longrightarrow> 0 \<le> x + x / 2 ^ 53" by simp
  show "\<exists>y. rounding_up x = Fin y \<and> \<bar>y - x\<bar> \<le> float_eps * \<bar>x\<bar> + float_tiny \<and> (0 \<le> x \<longrightarrow> 0 \<le> y)"
    unfolding rounding_up_def by (intro exI [of _ "x + x / 2 ^ 53"] conjI refl a b)
qed

lemma rounded_exact [simp]: "rounded Fin a = a"
  by (cases a) (simp_all add: rounded_def)

lemma exact_ops [simp]:
  "radd Fin = fadd" "rsub Fin = fsub" "rmul Fin = fmul" "rdiv Fin = fdiv" "rsqrt Fin = fsqrt"
  by (simp_all add: fun_eq_iff radd_def rsub_def rmul_def rdiv_def rsqrt_def)

lemma exact_sum [simp]: "rsum Fin = py_sum"
  by (simp add: fun_eq_iff rsum_def py_sum_def)

lemma collect_Inr: "collect (map (\<lambda>x. Inr (f x)) xs) = Inr (map f xs)"
  by (induction xs) simp_all

lemma square_exact: "py_square np_arith Fin d = Inr (fmul d d)"
  by (cases d) (simp_all add: py_square_def)

lemma exact_portfolio:
  "covariance_matrix_fp Fin = covariance_matrix"
  "record_portfolio_state_fp Fin = record_portfolio_state"
  "handle_strategy_removal_fp Fin = handle_strategy_removal"
  "make_allocation_fp Fin = make_allocation"
  by (simp_all add: fun_eq_iff covariance_matrix_fp_def covariance_matrix_def
        record_portfolio_state_fp_def record_portfolio_state_def
        handle_strategy_removal_fp_def handle_strategy_removal_def
        make_allocation_fp_def make_allocation_def)

lemma optimize_weights_exact:
  "optimize_weights_fp np_arith Fin Fin py_sum scores = Inr (optimize_weights scores)"
  by (simp add: optimize_weights_fp_def optimize_weights_def square_exact collect_Inr
        exact_portfolio Let_def)

lemma update_portfolio_exact:
  "update_portfolio_fp np_arith Fin Fin py_sum p scores now = Inr (update_portfolio p scores now)"
  unfolding update_portfolio_fp_def update_portfolio_def optimize_weights_exact exact_portfolio
  by (simp add: Let_def)

lemma adjust_allocation_exact:
  "adjust_allocation_fp Fin p k w now = adjust_allocation p k w now"
  unfolding adjust_allocation_fp_def adjust_allocation_def exact_portfolio exact_ops exact_sum
  by (rule refl)

lemma np_diag_covariance_fp:
  "np_diag (covariance_matrix_fp rnd vs)
     = map (\<lambda>v. rmul rnd (rmul rnd (rsqrt rnd v) (rsqrt rnd v)) (Fin 1)) vs"
  by (rule nth_equalityI) (simp_all add: np_diag_def covariance_matrix_fp_def correlation_def)

lemma recorded_allocations_fp [simp]:
  "allocations (record_portfolio_state_fp rnd p now) = allocations p"
  by (simp add: record_portfolio_state_fp_def Let_def)

lemma removal_allocations_fp [simp]:
  "allocations (foldl (handle_strategy_removal_fp rnd) p xs) = allocations p"
  by (induction xs arbitrary: p) (simp_all add: handle_strategy_removal_fp_def)

lemma float_numbers:
  "1000 * float_eps \<le> 1 / 8"
  "2000 * float_tiny \<le> float_max / 4"
  "float_tiny \<le> 1 / 10 ^ 10"
  "float_eps \<le> 1 / 2 ^ 52"
  "float_tiny * 2 ^ 1000 \<le> float_eps"
  by (simp_all add: float_eps_def float_tiny_def float_max_def)

lemma sum_list_error:
  "\<forall>x\<in>set xs. \<bar>f x - g x\<bar> \<le> (h x :: real)
     \<Longrightarrow> \<bar>sum_list (map f xs) - sum_list (map g xs)\<bar> \<le> sum_list (map h xs)"
proof (induction xs)
  case Nil
  then show ?case by simp
next
  case (Cons x xs)
  then have "\<bar>f x - g x\<bar> \<le> h x"
    and "\<bar>sum_list (map f xs) - sum_list (map g xs)\<bar> \<le> sum_list (map h xs)" by simp_all
  then show ?case by simp
qed

lemma rsum_fold:
  assumes rnd: "ieee_rounding rnd"
    and T: "2 * T \<le> float_max"
    and c: "c = 2 * float_eps * T + 2 * float_tiny"
  shows "\<forall>x\<in>set xs. 0 \<le> x \<Longrightarrow> 0 \<le> A \<Longrightarrow> 0 \<le> a \<Longrightarrow> \<bar>a - A\<bar> \<le> real k * c
           \<Longrightarrow> A + sum_list xs \<le> T \<Longrightarrow> k + length xs \<le> 1000
           \<Longrightarrow> \<exists>s. foldl (radd rnd) (Fin a) (map Fin xs) = Fin s \<and> 0 \<le> s
                   \<and> \<bar>s - (A + sum_list xs)\<bar> \<le> real (k + length xs) * c"
proof (induction xs arbitrary: a A k)
  case Nil
  then show ?case by simp
next
  case (Cons x xs)
  have x: "0 \<le> x" and xs: "\<forall>x\<in>set xs. 0 \<le> x" using Cons.prems(1) by simp_all
  have sx: "0 \<le> sum_list xs" using xs by (simp add: sum_list_nonneg)
  have Tpos: "0 \<le> T" using Cons.prems(2,5) x sx by simp
  have cpos: "0 \<le> c" unfolding c using Tpos float_consts by simp
  have k: "real k \<le> 1000" using Cons.prems(6) by simp
  have Ax: "A + x \<le> T" using Cons.prems(5) sx by simp
  have kc: "real k * c \<le> 1000 * c" using k cpos by (intro mult_right_mono)
  have ek: "float_eps * (real k * c) \<le> c / 2"
  proof -
    have "float_eps * (real k * c) = (real k * float_eps) * c" by simp
    also have "\<dots> \<le> (1000 * float_eps) * c"
      using k cpos float_consts(1) by (intro mult_right_mono) simp_all
    also have "\<dots> \<le> (1 / 8) * c"
      using cpos float_numbers(1) by (intro mult_right_mono)
    finally show ?thesis using cpos by simp
  qed
  have ax: "a + x \<le> T + real k * c" using Cons.prems(4) Ax by linarith
  have "1000 * c = (2 * (1000 * float_eps)) * T + 2000 * float_tiny" unfolding c by simp
  also have "\<dots> \<le> (2 * (1 / 8)) * T + float_max / 4"
    using float_numbers(1,2) Tpos by (intro add_mono mult_right_mono) simp_all
  finally have "1000 * c \<le> T / 4 + float_max / 4" by simp
  with ax kc T Tpos have "a + x \<le> float_max" by linarith
  then have "\<bar>a + x\<bar> \<le> float_max" using Cons.prems(3) x by simp
  from rounding_step [OF rnd this] obtain y where
    y: "rnd (a + x) = Fin y" "\<bar>y - (a + x)\<bar> \<le> float_eps * \<bar>a + x\<bar> + float_tiny" "0 \<le> y"
    using Cons.prems(3) x by force
  have "float_eps * \<bar>a + x\<bar> \<le> float_eps * (T + real k * c)"
    using ax Cons.prems(3) x float_consts(1) by (intro mult_left_mono) simp_all
  also have "\<dots> = float_eps * T + float_eps * (real k * c)" by (simp add: algebra_simps)
  also have "\<dots> \<le> float_eps * T + c / 2" using ek by simp
  finally have "float_eps * \<bar>a + x\<bar> \<le> float_eps * T + c / 2" .
  moreover have "c / 2 = float_eps * T + float_tiny" unfolding c by simp
  ultimately have "float_eps * \<bar>a + x\<bar> + float_tiny \<le> c" by linarith
  with y(2) Cons.prems(4) have "\<bar>y - (A + x)\<bar> \<le> real k * c + c" by linarith
  then have err: "\<bar>y - (A + x)\<bar> \<le> real (Suc k) * c" by (simp add: algebra_simps)
  have "\<exists>s. foldl (radd rnd) (Fin y) (map Fin xs) = Fin s \<and> 0 \<le> s
          \<and> \<bar>s - (A + x + sum_list xs)\<bar> \<le> real (Suc k + length xs) * c"
    using Cons.prems(2,5,6) x
    by (intro Cons.IH [OF xs _ y(3) err]) simp_all
  moreover have "radd rnd (Fin a) (Fin x) = Fin y"
    by (simp add: radd_def rounded_def y(1))
  ultimately show ?case by (simp add: add.assoc)
qed

lemma rsum_accurate:
  assumes rnd: "ieee_rounding rnd"
  shows "ieee_summation (rsum rnd)"
  unfolding ieee_summation_def
proof (intro allI impI)
  fix xs :: "real list"
  assume h: "length xs \<le> 1000 \<and> (\<forall>x\<in>set xs. 0 \<le> x) \<and> 2 * sum_list xs \<le> float_max"
  have "\<exists>s. foldl (radd rnd) (Fin 0) (map Fin xs) = Fin s \<and> 0 \<le> s
          \<and> \<bar>s - (0 + sum_list xs)\<bar>
              \<le> real (0 + length xs) * (2 * float_eps * sum_list xs + 2 * float_tiny)"
    using h by (intro rsum_fold [OF rnd _ refl]) simp_all
  then show "\<exists>s. rsum rnd (map Fin xs) = Fin s
                 \<and> \<bar>s - sum_list xs\<bar> \<le> real (length xs) * (2 * float_eps * sum_list xs + 2 * float_tiny)"
    by (auto simp: rsum_def)
qed

lemma sum_relative:
  assumes S: "1 / 2 ^ 1000 \<le> S" and n: "n \<le> 1000"
    and err: "\<bar>s - S\<bar> \<le> real n * (2 * float_eps * S + 2 * float_tiny)"
  shows "\<bar>s - S\<bar> \<le> S / 2 ^ 39"
proof -
  have Spos: "0 < S"
  proof -
    have "(0::real) < 1 / 2 ^ 1000" by simp
    with S show ?thesis by linarith
  qed
  have "float_tiny = (float_tiny * 2 ^ 1000) * (1 / 2 ^ 1000)" by simp
  also have "\<dots> \<le> float_eps * (1 / 2 ^ 1000)"
    using float_numbers(5) by (intro mult_right_mono) simp_all
  also have "\<dots> \<le> float_eps * S" using S float_consts(1) by (intro mult_left_mono) simp_all
  finally have t: "float_tiny \<le> float_eps * S" .
  have c: "0 \<le> 2 * float_eps * S + 2 * float_tiny" using Spos float_consts by simp
  have "real n * (2 * float_eps * S + 2 * float_tiny) \<le> 1000 * (2 * float_eps * S + 2 * float_tiny)"
    using n c by (intro mult_right_mono) simp_all
  also have "\<dots> \<le> 1000 * (4 * float_eps * S)"
  proof -
    define e where "e = float_eps * S"
    have "float_tiny \<le> e" using t by (simp only: e_def)
    then have "1000 * (2 * e + 2 * float_tiny) \<le> 1000 * (4 * e)" by simp
    then show ?thesis by (simp only: e_def mult.assoc)
  qed
  also have "\<dots> = (4000 * float_eps) * S" by simp
  also have "\<dots> \<le> (1 / 2 ^ 39) * S"
    using Spos by (intro mult_right_mono) (simp_all add: float_eps_def)
  finally show ?thesis using err by simp
qed

lemma normalised_sum:
  assumes A: "A = sum_list (map r xs)" and Apos: "0 < A"
    and n: "length xs \<le> 1000"
    and s: "\<bar>s - A\<bar> \<le> A / 2 ^ 39"
    and ys: "\<forall>x\<in>set xs. \<bar>g x - r x / s\<bar> \<le> float_eps * (r x / s) + float_tiny"
  shows "\<bar>sum_list (map g xs) - 1\<bar> \<le> 1 / 10 ^ 6"
proof -
  have "A / 2 ^ 39 \<le> A / 2" using Apos by (intro divide_left_mono) simp_all
  with s have s2: "A / 2 \<le> s" by linarith
  then have spos: "0 < s" using Apos by linarith
  have ratio: "A / s \<le> 2" using s2 spos by (simp add: field_simps)
  have "\<bar>sum_list (map g xs) - sum_list (map (\<lambda>x. r x / s) xs)\<bar>
          \<le> sum_list (map (\<lambda>x. float_eps * (r x / s) + float_tiny) xs)"
    using ys by (rule sum_list_error)
  also have "sum_list (map (\<lambda>x. float_eps * (r x / s) + float_tiny) xs)
               = float_eps * (A / s) + real (length xs) * float_tiny"
    unfolding A by (induction xs) (simp_all add: algebra_simps add_divide_distrib)
  also have "sum_list (map (\<lambda>x. r x / s) xs) = A / s"
    unfolding A by (rule sum_list_divide)
  finally have e1: "\<bar>sum_list (map g xs) - A / s\<bar>
                      \<le> float_eps * (A / s) + real (length xs) * float_tiny" .
  have "float_eps * (A / s) \<le> (1 / 2 ^ 52) * 2"
    using ratio float_numbers(4) Apos spos by (intro mult_mono) simp_all
  moreover have "real (length xs) * float_tiny \<le> 1000 * (1 / 10 ^ 10)"
    using n float_numbers(3) float_consts(2) by (intro mult_mono) simp_all
  ultimately have e2: "\<bar>sum_list (map g xs) - A / s\<bar> \<le> 2 / 2 ^ 52 + 1 / 10 ^ 7"
    using e1 by simp
  have "\<bar>A / s - 1\<bar> = \<bar>A - s\<bar> / s" using spos by (simp add: field_simps abs_divide)
  also have "\<dots> \<le> (A / 2 ^ 39) / s"
    using s spos by (intro divide_right_mono) (simp_all add: abs_minus_commute)
  also have "\<dots> = (A / s) / 2 ^ 39" by simp
  also have "\<dots> \<le> 2 / 2 ^ 39" using ratio by (intro divide_right_mono) simp_all
  finally have e3: "\<bar>A / s - 1\<bar> \<le> 2 / 2 ^ 39" .
  have "\<bar>sum_list (map g xs) - 1\<bar> \<le> 2 / 2 ^ 52 + 1 / 10 ^ 7 + 2 / 2 ^ 39"
    using e2 e3 by linarith
  also have "\<dots> \<le> 1 / 10 ^ 6" by simp
  finally show ?thesis .
qed

lemma decimal_range:
  "1 / 10 ^ 100 \<le> x \<Longrightarrow> x \<le> 10 ^ 100 \<Longrightarrow> in_range 350 x"
proof -
  assume a: "1 / 10 ^ 100 \<le> x" "x \<le> 10 ^ 100"
  have "(10::real) ^ 100 \<le> 2 ^ 350" by simp
  moreover have "1 / (2::real) ^ 350 \<le> 1 / 10 ^ 100" by simp
  ultimately show ?thesis using a unfolding in_range_def by linarith
qed

lemma rmul_Fin: "rmul rnd (Fin x) (Fin y) = rnd (x * y)"
  by (simp add: rmul_def rounded_def)

lemma rsqrt_Fin: "0 \<le> x \<Longrightarrow> rsqrt rnd (Fin x) = rnd (sqrt x)"
  by (simp add: rsqrt_def rounded_def)

lemma rdiv_Fin: "y \<noteq> 0 \<Longrightarrow> rdiv rnd (Fin x) (Fin y) = rnd (x / y)"
  by (simp add: rdiv_def rounded_def)

lemma raw_weight:
  assumes rnd: "ieee_rounding rnd" and pw: "ieee_rounding rnd_pow" and lo: "1 / 10 ^ 100 \<le> \<bar>d\<bar>" and hi: "\<bar>d\<bar> \<le> 10 ^ 100"
  shows "\<exists>v r. rmul rnd_pow (Fin d) (Fin d) = Fin v
           \<and> rdiv rnd (Fin 1)
               (rsqrt rnd (rmul rnd (rmul rnd (rsqrt rnd (Fin v)) (rsqrt rnd (Fin v))) (Fin 1)))
             = Fin r
           \<and> in_range 355 r"
proof -
  have "in_range 350 \<bar>d\<bar>" using lo hi by (rule decimal_range)
  then have "in_range (350 + 350) (\<bar>d\<bar> * \<bar>d\<bar>)" by (intro range_mult)
  then have dd: "in_range 700 (d * d)" by (simp flip: abs_mult)
  from range_round [OF pw dd] obtain v where
    v: "rnd_pow (d * d) = Fin v" "in_range (Suc 700) v" by auto
  have "in_range (2 * 351) v" using v(2) by (rule range_mono) simp
  then have "in_range 351 (sqrt v)" by (rule range_sqrt)
  from range_round [OF rnd this] obtain s where
    s: "rnd (sqrt v) = Fin s" "in_range (Suc 351) s" by auto
  have "in_range (Suc 351 + Suc 351) (s * s)" using s(2) by (intro range_mult)
  from range_round [OF rnd this] obtain p where
    p: "rnd (s * s) = Fin p" "in_range (Suc (Suc 351 + Suc 351)) p" by auto
  from range_round [OF rnd p(2)] obtain c where
    c: "rnd p = Fin c" "in_range (Suc (Suc (Suc 351 + Suc 351))) c" by auto
  have "in_range (2 * 353) c" using c(2) by (rule range_mono) simp
  then have "in_range 353 (sqrt c)" by (rule range_sqrt)
  from range_round [OF rnd this] obtain t where
    t: "rnd (sqrt c) = Fin t" "in_range (Suc 353) t" by auto
  have "in_range (Suc 353) (1 / t)" using t(2) by (rule range_inverse)
  from range_round [OF rnd this] obtain r where
    r: "rnd (1 / t) = Fin r" "in_range (Suc (Suc 353)) r" by auto
  have vpos: "0 \<le> v" "0 \<le> c" "t \<noteq> 0"
    using range_pos [OF v(2)] range_pos [OF c(2)] range_pos [OF t(2)] by simp_all
  have "rmul rnd_pow (Fin d) (Fin d) = Fin v" by (simp add: rmul_Fin v(1))
  moreover have "rdiv rnd (Fin 1)
               (rsqrt rnd (rmul rnd (rmul rnd (rsqrt rnd (Fin v)) (rsqrt rnd (Fin v))) (Fin 1)))
             = Fin r"
    using vpos by (simp add: rsqrt_Fin rmul_Fin rdiv_Fin s(1) p(1) c(1) t(1) r(1))
  moreover have "in_range 355 r" using r(2) by (rule range_mono) simp
  ultimately show ?thesis by blast
qed

lemma sum_list_upper:
  "\<forall>x\<in>set xs. f x \<le> (B::real) \<Longrightarrow> sum_list (map f xs) \<le> real (length xs) * B"
  by (induction xs) (simp_all add: algebra_simps)

lemma sum_list_lower:
  "xs \<noteq> [] \<Longrightarrow> \<forall>x\<in>set xs. (b::real) \<le> f x \<Longrightarrow> 0 \<le> b \<Longrightarrow> b \<le> sum_list (map f xs)"
proof (induction xs)
  case Nil
  then show ?case by simp
next
  case (Cons x xs)
  have "0 \<le> sum_list (map f xs)"
    using Cons.prems by (intro sum_list_nonneg) auto
  moreover have "b \<le> f x" using Cons.prems by simp
  ultimately show ?case by simp
qed

lemma sum_list_member:
  "\<forall>x\<in>set xs. 0 \<le> (f x :: real) \<Longrightarrow> y \<in> set xs \<Longrightarrow> f y \<le> sum_list (map f xs)"
proof (induction xs)
  case Nil
  then show ?case by simp
next
  case (Cons x xs)
  have rest: "0 \<le> sum_list (map f xs)" using Cons.prems(1) by (intro sum_list_nonneg) auto
  show ?case
  proof (cases "y = x")
    case True
    with rest show ?thesis by simp
  next
    case False
    with Cons have "f y \<le> sum_list (map f xs)" by simp
    moreover have "0 \<le> f x" using Cons.prems(1) by simp
    ultimately show ?thesis by simp
  qed
qed

lemma near_one_Fin: "near_one (Fin t) = (\<bar>t - 1\<bar> \<le> 1 / 10 ^ 6)"
  by (simp add: near_one_def fsub_def)

lemma optimize_weights_rounded:
  assumes rnd: "ieee_rounding rnd" and pw: "ieee_rounding rnd_pow" and sm: "ieee_summation np_sum"
    and ne: "scores \<noteq> []" and len: "length scores \<le> 1000"
    and dist: "distinct (map score_id scores)"
    and dd: "\<forall>s\<in>set scores. \<exists>d. m_max_drawdown (performance_metrics s) = Fin d
                                    \<and> 1 / 10 ^ 100 \<le> \<bar>d\<bar> \<and> \<bar>d\<bar> \<le> 10 ^ 100"
  shows "\<exists>g. optimize_weights_fp np_arith rnd_pow rnd np_sum scores
               = Inr (map (\<lambda>s. (score_id s, Fin (g s))) scores)
             \<and> \<bar>sum_list (map g scores) - 1\<bar> \<le> 1 / 10 ^ 6"
proof -
  define D where "D s = m_max_drawdown (performance_metrics s)" for s :: StrategyScore
  define sq where "sq s = rmul rnd_pow (D s) (D s)" for s :: StrategyScore
  define raw where "raw s = rdiv rnd (Fin 1)
      (rsqrt rnd (rmul rnd (rmul rnd (rsqrt rnd (sq s)) (rsqrt rnd (sq s))) (Fin 1)))" for s :: StrategyScore
  define r where "r s = fin_val (raw s)" for s :: StrategyScore
  have pt: "py_square np_arith rnd_pow (D s) = Inr (sq s) \<and> raw s = Fin (r s) \<and> in_range 355 (r s)"
    if "s \<in> set scores" for s
  proof -
    from dd that obtain d where d: "D s = Fin d" "1 / 10 ^ 100 \<le> \<bar>d\<bar>" "\<bar>d\<bar> \<le> 10 ^ 100"
      unfolding D_def by blast
    from raw_weight [OF rnd pw d(2,3)] obtain v x where
      vx: "rmul rnd_pow (Fin d) (Fin d) = Fin v"
          "rdiv rnd (Fin 1)
               (rsqrt rnd (rmul rnd (rmul rnd (rsqrt rnd (Fin v)) (rsqrt rnd (Fin v))) (Fin 1)))
             = Fin x"
          "in_range 355 x" by blast
    have s: "sq s = Fin v" by (simp add: sq_def d(1) vx(1))
    have "raw s = Fin x" unfolding raw_def s by (rule vx(2))
    moreover have "py_square np_arith rnd_pow (D s) = Inr (sq s)"
      using s by (simp add: py_square_def sq_def d(1) Let_def)
    ultimately show ?thesis using vx(3) by (simp add: r_def fin_val_def)
  qed
  have squares: "collect (map (\<lambda>s. py_square np_arith rnd_pow (m_max_drawdown (performance_metrics s)))
                              scores) = Inr (map sq scores)"
  proof -
    have "map (\<lambda>s. py_square np_arith rnd_pow (m_max_drawdown (performance_metrics s))) scores
            = map (\<lambda>s. Inr (sq s)) scores"
      using pt by (intro map_cong [OF refl]) (simp add: D_def)
    then show ?thesis by (simp only: collect_Inr)
  qed
  have raws: "map (\<lambda>c. rdiv rnd (Fin 1) (rsqrt rnd c)) (np_diag (covariance_matrix_fp rnd (map sq scores)))
                = map Fin (map r scores)"
    unfolding np_diag_covariance_fp using pt by (simp add: raw_def)
  let ?A = "sum_list (map r scores)"
  have rng: "\<forall>s\<in>set scores. in_range 355 (r s)" using pt by simp
  have lower: "1 / 2 ^ 355 \<le> ?A"
    using ne rng by (intro sum_list_lower) (simp_all add: in_range_def)
  have "?A \<le> real (length scores) * 2 ^ 355"
    using rng by (intro sum_list_upper) (simp add: in_range_def)
  also have "\<dots> \<le> 1000 * 2 ^ 355" using len by (intro mult_right_mono) simp_all
  finally have upper: "?A \<le> 1000 * 2 ^ 355" .
  have "(1000::real) * 2 ^ 355 \<le> 2 ^ 1022" by simp
  with upper have fits: "2 * sum_list (map r scores) \<le> float_max" by (simp add: float_max_def)
  have pos: "\<forall>s\<in>set scores. 0 < r s" using rng range_pos by blast
  then have nonneg: "\<forall>x\<in>set (map r scores). 0 \<le> x" by (auto intro: less_imp_le)
  from sm fits nonneg len obtain S where
    S: "np_sum (map Fin (map r scores)) = Fin S"
       "\<bar>S - ?A\<bar> \<le> real (length (map r scores)) * (2 * float_eps * ?A + 2 * float_tiny)"
    unfolding ieee_summation_def
    by (elim allE [of _ "map r scores"]) auto
  have "1 / (2::real) ^ 1000 \<le> 1 / 2 ^ 355" by (intro frac_le power_increasing) simp_all
  with lower have low: "1 / 2 ^ 1000 \<le> ?A" by linarith
  have rel: "\<bar>S - ?A\<bar> \<le> ?A / 2 ^ 39"
    using S(2) len by (intro sum_relative [OF low, of "length scores"]) simp_all
  have Apos: "0 < ?A"
  proof -
    have "(0::real) < 1 / 2 ^ 355" by simp
    with lower show ?thesis by linarith
  qed
  have "?A / 2 ^ 39 \<le> ?A / 2" using Apos by (intro divide_left_mono) simp_all
  with rel have half: "?A / 2 \<le> S" by linarith
  then have Spos: "0 < S" using Apos by linarith
  define g where "g s = fin_val (rnd (r s / S))" for s :: StrategyScore
  have w: "rnd (r s / S) = Fin (g s)
           \<and> \<bar>g s - r s / S\<bar> \<le> float_eps * (r s / S) + float_tiny" if "s \<in> set scores" for s
  proof -
    have rs: "0 < r s" using pos that by simp
    have "r s \<le> ?A" using that pos
      by (intro sum_list_member) (auto intro: less_imp_le)
    then have "r s \<le> 2 * S" using half by linarith
    then have "r s / S \<le> 2" using Spos by (simp add: field_simps)
    moreover have "(2::real) \<le> float_max" by (simp add: float_max_def)
    moreover have q: "0 \<le> r s / S" using rs Spos by simp
    ultimately have "\<bar>r s / S\<bar> \<le> float_max" by simp
    from rounding_step [OF rnd this] obtain y where
      y: "rnd (r s / S) = Fin y" "\<bar>y - r s / S\<bar> \<le> float_eps * \<bar>r s / S\<bar> + float_tiny"
      by blast
    have "\<bar>r s / S\<bar> = r s / S" using q by (rule abs_of_nonneg)
    with y show ?thesis by (simp only: g_def fin_val_def fl.case)
  qed
  have ws: "zip scores (map (\<lambda>w. rdiv rnd w (Fin S)) (map Fin (map r scores)))
              = map (\<lambda>s. (s, Fin (g s))) scores"
  proof -
    have "map (\<lambda>w. rdiv rnd w (Fin S)) (map Fin (map r scores)) = map (\<lambda>s. Fin (g s)) scores"
      using w Spos by (simp add: rdiv_Fin)
    then show ?thesis by (simp add: zip_map2 zip_same_conv_map)
  qed
  have "optimize_weights_fp np_arith rnd_pow rnd np_sum scores
          = Inr (map (\<lambda>s. (score_id s, Fin (g s))) scores)"
    unfolding optimize_weights_fp_def squares sum.case Let_def raws S(1) ws
    using ne weights_dict [OF dist, of "[]" "\<lambda>s. Fin (g s)"] by simp
  moreover have "\<bar>sum_list (map g scores) - 1\<bar> \<le> 1 / 10 ^ 6"
    using w by (intro normalised_sum [OF refl Apos len rel]) simp
  ultimately show ?thesis by blast
qed

lemma update_portfolio_rounded:
  assumes rnd: "ieee_rounding rnd" and pw: "ieee_rounding rnd_pow" and sm: "ieee_summation np_sum"
    and valid: "valid = filter (\<lambda>s. fle min_score_threshold (overall_score s)) scores"
    and ne: "valid \<noteq> []" and len: "length valid \<le> 1000"
    and dist: "distinct (map score_id valid)"
    and dd: "\<forall>s\<in>set valid. \<exists>d. m_max_drawdown (performance_metrics s) = Fin d
                                    \<and> 1 / 10 ^ 100 \<le> \<bar>d\<bar> \<and> \<bar>d\<bar> \<le> 10 ^ 100"
  shows "\<exists>p'. update_portfolio_fp np_arith rnd_pow rnd np_sum p scores now = Inr p'
              \<and> map fst (allocations p') = map score_id valid
              \<and> near_one (weights_total p')"
proof -
  from optimize_weights_rounded [OF rnd pw sm ne len dist dd, of np_arith] obtain g where
    g: "optimize_weights_fp np_arith rnd_pow rnd np_sum valid = Inr (map (\<lambda>s. (score_id s, Fin (g s))) valid)"
       "\<bar>sum_list (map g valid) - 1\<bar> \<le> 1 / 10 ^ 6" by blast
  define allocs where "allocs = map (\<lambda>s. (score_id s,
      make_allocation_fp rnd (current_capital p) now (score_id s) (Fin (g s)) s)) valid"
  define p' where "p' = record_portfolio_state_fp rnd
      ((foldl (handle_strategy_removal_fp rnd) p
          (map snd (filter (\<lambda>ka. fst ka \<notin> set (dict_keys allocs)) (allocations p))))
       \<lparr>allocations := allocs\<rparr>) now"
  have "update_portfolio_fp np_arith rnd_pow rnd np_sum p scores now = Inr p'"
    using ne allocations_dict [OF dist subset_refl dist, of "[]"
            "make_allocation_fp rnd (current_capital p) now" "\<lambda>s. Fin (g s)"]
    by (simp add: update_portfolio_fp_def Let_def valid [symmetric] g(1) p'_def allocs_def)
  moreover have a: "allocations p' = allocs" by (simp add: p'_def)
  have "map fst (allocations p') = map score_id valid" by (simp add: a allocs_def comp_def)
  moreover have "weights_total p' = Fin (sum_list (map g valid))"
    by (simp add: weights_total_def a allocs_def comp_def make_allocation_fp_def py_sum_map_Fin)
  then have "near_one (weights_total p')" using g(2) by (simp add: near_one_Fin)
  ultimately show ?thesis by blast
qed

lemma float_small:
  "float_tiny \<le> 1 / 10 ^ 20"
  "float_tiny * 10 ^ 100 \<le> 1 / 10 ^ 20"
  "1002 * float_eps \<le> 1 / 10 ^ 12"
  by (simp_all add: float_eps_def float_tiny_def)

lemma scale_total:
  fixes T t D p c :: real
  assumes Tpos: "0 < T" and Thi: "T \<le> 10 ^ 100"
    and t: "\<bar>t - T\<bar> \<le> T / 2 ^ 39"
    and D: "3 / 4 \<le> D" "D \<le> 1001"
    and p: "\<bar>p - D\<bar> \<le> float_eps * D + float_tiny"
    and c: "\<bar>c - p / t\<bar> \<le> float_eps * (p / t) + float_tiny"
  shows "\<bar>c * T - D\<bar> \<le> 5 / 10 ^ 9"
proof -
  define \<rho> where "\<rho> = T / t"
  have "T / 2 ^ 39 \<le> T / 2" using Tpos by (intro divide_left_mono) simp_all
  with t have half: "T / 2 \<le> t" by linarith
  then have tpos: "0 < t" using Tpos by linarith
  have rho2: "\<rho> \<le> 2" "0 \<le> \<rho>" using half tpos Tpos by (simp_all add: \<rho>_def field_simps)
  have "\<bar>\<rho> - 1\<bar> = \<bar>T - t\<bar> / t" using tpos by (simp add: \<rho>_def field_simps abs_divide)
  also have "\<dots> \<le> (T / 2 ^ 39) / t"
    using t tpos by (intro divide_right_mono) (simp_all add: abs_minus_commute)
  also have "\<dots> = \<rho> / 2 ^ 39" by (simp add: \<rho>_def)
  also have "\<dots> \<le> 2 / 2 ^ 39" using rho2 by (intro divide_right_mono) simp_all
  finally have rho1: "\<bar>\<rho> - 1\<bar> \<le> 2 / 2 ^ 39" .
  have eD: "float_eps * D \<le> 1 / 10 ^ 12"
  proof -
    have "float_eps * D \<le> float_eps * 1002" using D float_consts(1) by (intro mult_left_mono) simp_all
    with float_small(3) show ?thesis by simp
  qed
  have "(1::real) / 10 ^ 20 \<le> 1 / 10 ^ 12" by simp
  with p eD float_small(1) have pD: "\<bar>p - D\<bar> \<le> 2 / 10 ^ 12" by linarith
  have "(2::real) / 10 ^ 12 \<le> 1 / 4" by simp
  with pD D have ppos: "0 \<le> p" by linarith
  have "p * \<rho> - D = (p - D) * \<rho> + D * (\<rho> - 1)" by (simp add: algebra_simps)
  then have "\<bar>p * \<rho> - D\<bar> \<le> \<bar>(p - D) * \<rho>\<bar> + \<bar>D * (\<rho> - 1)\<bar>" by (simp only: abs_triangle_ineq)
  also have "\<dots> = \<bar>p - D\<bar> * \<rho> + D * \<bar>\<rho> - 1\<bar>" using rho2 D by (simp add: abs_mult)
  also have "\<dots> \<le> (2 / 10 ^ 12) * 2 + 1001 * (2 / 2 ^ 39)"
    using pD rho1 rho2 D by (intro add_mono mult_mono) simp_all
  also have "\<dots> \<le> 4 / 10 ^ 9" by simp
  finally have q1: "\<bar>p * \<rho> - D\<bar> \<le> 4 / 10 ^ 9" .
  have "(4::real) / 10 ^ 9 \<le> 1" by simp
  with q1 D have q2: "p * \<rho> \<le> 1002" by linarith
  have q2': "0 \<le> p * \<rho>" using ppos rho2 by simp
  have pt: "p / t * T = p * \<rho>" by (simp add: \<rho>_def)
  have "c * T - p * \<rho> = (c - p / t) * T" unfolding pt [symmetric] by (simp add: algebra_simps)
  then have "\<bar>c * T - p * \<rho>\<bar> = \<bar>c - p / t\<bar> * \<bar>T\<bar>" by (simp only: abs_mult)
  also have "\<dots> = \<bar>c - p / t\<bar> * T" using Tpos by simp
  also have "\<dots> \<le> (float_eps * (p / t) + float_tiny) * T"
    using c Tpos by (intro mult_right_mono) simp_all
  also have "\<dots> = float_eps * (p / t * T) + float_tiny * T" by (simp add: algebra_simps)
  also have "\<dots> = float_eps * (p * \<rho>) + float_tiny * T" by (simp only: pt)
  also have "\<dots> \<le> float_eps * 1002 + float_tiny * 10 ^ 100"
    using q2 Thi float_consts by (intro add_mono mult_left_mono) simp_all
  also have "\<dots> \<le> 1 / 10 ^ 12 + 1 / 10 ^ 20"
    using float_small by (intro add_mono) (simp_all add: mult.commute)
  also have "\<dots> \<le> 2 / 10 ^ 12" by simp
  finally have q3: "\<bar>c * T - p * \<rho>\<bar> \<le> 2 / 10 ^ 12" .
  have "(2::real) / 10 ^ 12 \<le> 1 / 10 ^ 9" by simp
  with q1 q3 show ?thesis by linarith
qed

lemma rescaled_sum:
  fixes T t D p c :: real
  assumes T: "T = sum_list (map r xs)" and Tpos: "0 < T" and Thi: "T \<le> 10 ^ 100"
    and t: "\<bar>t - T\<bar> \<le> T / 2 ^ 39"
    and D: "3 / 4 \<le> D" "D \<le> 1001"
    and p: "\<bar>p - D\<bar> \<le> float_eps * D + float_tiny"
    and c: "\<bar>c - p / t\<bar> \<le> float_eps * (p / t) + float_tiny"
    and n: "length xs \<le> 1000"
    and y: "\<forall>x\<in>set xs. \<bar>g x - r x * c\<bar> \<le> float_eps * (r x * c) + float_tiny"
  shows "\<bar>sum_list (map g xs) - D\<bar> \<le> 1 / 10 ^ 6"
proof -
  have q4: "\<bar>c * T - D\<bar> \<le> 5 / 10 ^ 9" by (rule scale_total [OF Tpos Thi t D p c])
  have "(5::real) / 10 ^ 9 \<le> 1" by simp
  with q4 D have q5: "c * T \<le> 1002" by linarith
  have "\<bar>sum_list (map g xs) - sum_list (map (\<lambda>x. r x * c) xs)\<bar>
          \<le> sum_list (map (\<lambda>x. float_eps * (r x * c) + float_tiny) xs)"
    using y by (rule sum_list_error)
  also have "sum_list (map (\<lambda>x. float_eps * (r x * c) + float_tiny) xs)
               = float_eps * (c * T) + real (length xs) * float_tiny"
    unfolding T by (induction xs) (simp_all add: algebra_simps)
  also have "sum_list (map (\<lambda>x. r x * c) xs) = c * T"
    unfolding T by (induction xs) (simp_all add: algebra_simps)
  finally have "\<bar>sum_list (map g xs) - c * T\<bar> \<le> float_eps * (c * T) + real (length xs) * float_tiny" .
  moreover have "float_eps * (c * T) \<le> float_eps * 1002"
    using q5 float_consts(1) by (intro mult_left_mono) simp_all
  moreover have "real (length xs) * float_tiny \<le> 1000 * (1 / 10 ^ 20)"
    using n float_small(1) float_consts(2) by (intro mult_mono) simp_all
  moreover have "(1000::real) * (1 / 10 ^ 20) \<le> 1 / 10 ^ 12" by simp
  ultimately have q6: "\<bar>sum_list (map g xs) - c * T\<bar> \<le> 2 / 10 ^ 12"
    using float_small(3) by (simp only: mult.commute [of float_eps 1002])
  have "(5::real) / 10 ^ 9 + 2 / 10 ^ 12 \<le> 1 / 10 ^ 6" by simp
  with q4 q6 show ?thesis by linarith
qed

lemma target_weights:
  "map (\<lambda>ka. weight (snd ka))
     (map (\<lambda>ka. if fst ka = k
                 then (fst ka, (snd ka)\<lparr>weight := m, current_allocation := a1\<rparr>)
                 else ka)
        (map (\<lambda>ka. if fst ka \<noteq> k
                    then (fst ka, (snd ka)\<lparr>weight := f ka, current_allocation := a2 ka\<rparr>)
                    else ka) d))
   = map (\<lambda>ka. if fst ka = k then m else f ka) d"
  by (induction d) auto

lemma sum_split_absent:
  "k \<notin> fst ` set d
     \<Longrightarrow> sum_list (map (\<lambda>ka. if fst ka = k then m else g ka) d) = (sum_list (map g d) :: real)
         \<and> filter (\<lambda>ka. fst ka \<noteq> k) d = d"
  by (induction d) auto

lemma sum_split_key:
  "distinct (map fst d) \<Longrightarrow> k \<in> fst ` set d
     \<Longrightarrow> sum_list (map (\<lambda>ka. if fst ka = k then m else g ka) d)
         = (m::real) + sum_list (map g (filter (\<lambda>ka. fst ka \<noteq> k) d))"
proof (induction d)
  case Nil
  then show ?case by simp
next
  case (Cons x d)
  show ?case
  proof (cases "fst x = k")
    case True
    then have "k \<notin> fst ` set d" using Cons.prems(1) by auto
    from sum_split_absent [OF this, of m g] True show ?thesis by simp
  next
    case False
    then have "k \<in> fst ` set d" using Cons.prems(2) by auto
    with Cons False show ?thesis by simp
  qed
qed

lemma adjust_allocation_rounded:
  assumes rnd: "ieee_rounding rnd"
    and k_in: "k \<in> set (dict_keys (allocations q))"
    and dist: "distinct (dict_keys (allocations q))"
    and len: "length (allocations q) \<le> 1000"
    and fin: "\<forall>ka\<in>set (allocations q). fst ka \<noteq> k \<longrightarrow> (\<exists>x. weight (snd ka) = Fin x \<and> 0 \<le> x)"
    and lo: "fle (Fin (1 / 10 ^ 100))
                 (py_sum (map (\<lambda>ka. weight (snd ka)) (filter (\<lambda>ka. fst ka \<noteq> k) (allocations q))))"
    and hi: "fle (py_sum (map (\<lambda>ka. weight (snd ka)) (filter (\<lambda>ka. fst ka \<noteq> k) (allocations q))))
                 (Fin (10 ^ 100))"
    and w: "- 1000 \<le> w"
  shows "near_one (weights_total (adjust_allocation_fp rnd q k (Fin w) now))"
proof -
  let ?d = "allocations q"
  let ?others = "filter (\<lambda>ka. fst ka \<noteq> k) ?d"
  define r where "r ka = fin_val (weight (snd ka))" for ka :: "string \<times> StrategyAllocation"
  define T where "T = sum_list (map r ?others)"
  have val: "weight (snd ka) = Fin (r ka) \<and> 0 \<le> r ka" if "ka \<in> set ?others" for ka
  proof -
    from that have "ka \<in> set ?d" "fst ka \<noteq> k" by auto
    with fin obtain x where "weight (snd ka) = Fin x" "0 \<le> x" by blast
    then show ?thesis by (simp add: r_def fin_val_def)
  qed
  have others: "map (\<lambda>ka. weight (snd ka)) ?others = map Fin (map r ?others)"
    using val by (simp cong: map_cong)
  have total: "py_sum (map (\<lambda>ka. weight (snd ka)) ?others) = Fin T"
    unfolding others T_def by (rule py_sum_Fin)
  have Tlo: "1 / 10 ^ 100 \<le> T" and Thi: "T \<le> 10 ^ 100"
    using lo hi unfolding total by simp_all
  have Tpos: "0 < T"
  proof -
    have "(0::real) < 1 / 10 ^ 100" by simp
    with Tlo show ?thesis by linarith
  qed
  have nonneg: "\<forall>x\<in>set (map r ?others). 0 \<le> x" using val by auto
  have n: "length (map r ?others) \<le> 1000"
    by (simp add: order_trans [OF length_filter_le len])
  have "(2::real) * 10 ^ 100 \<le> 2 ^ 1023" by simp
  with Thi have fits: "2 * sum_list (map r ?others) \<le> float_max"
    unfolding T_def float_max_def by linarith
  from rsum_accurate [OF rnd] fits nonneg n obtain t where
    t: "rsum rnd (map Fin (map r ?others)) = Fin t"
       "\<bar>t - T\<bar> \<le> real (length (map r ?others)) * (2 * float_eps * T + 2 * float_tiny)"
    unfolding ieee_summation_def T_def
    by (elim allE [of _ "map r ?others"]) auto
  have "1 / (2::real) ^ 1000 \<le> 1 / 10 ^ 100" by simp
  with Tlo have low: "1 / 2 ^ 1000 \<le> T" by linarith
  have rel: "\<bar>t - T\<bar> \<le> T / 2 ^ 39"
    using t(2) n by (intro sum_relative [OF low, of "length (map r ?others)"]) simp_all
  have "T / 2 ^ 39 \<le> T / 2" using Tpos by (intro divide_left_mono) simp_all
  with rel have half: "T / 2 \<le> t" by linarith
  then have tpos: "0 < t" using Tpos by linarith
  define m where "m = (if 1 / 4 < w then 1 / 4 else w)"
  define D where "D = 1 - m"
  have nw: "py_min (Fin w) (Fin (1 / 4)) = Fin m" by (simp add: py_min_def m_def)
  have D: "3 / 4 \<le> D" "D \<le> 1001" using w by (simp_all add: D_def m_def)
  have "(1001::real) \<le> 2 ^ 1023" by simp
  with D have "\<bar>D\<bar> \<le> float_max" by (simp add: float_max_def)
  from rounding_step [OF rnd this] obtain p where
    p: "rnd D = Fin p" "\<bar>p - D\<bar> \<le> float_eps * \<bar>D\<bar> + float_tiny" "0 \<le> p"
    using D by force
  have pD: "\<bar>p - D\<bar> \<le> float_eps * D + float_tiny" using p(2) D by simp
  have sub: "rsub rnd (Fin 1) (Fin m) = Fin p"
    using p(1) by (simp add: rsub_def fsub_def rounded_def D_def)
  have "float_eps * D \<le> (1 / 4) * D" using float_consts(4) D by (intro mult_right_mono) simp_all
  moreover have "(1::real) / 10 ^ 20 \<le> 1" by simp
  ultimately have p_hi: "p \<le> 2002" using pD float_small(1) D by linarith
  have "p / t \<le> 2002 / (T / 2)" using p_hi half Tpos p(3) by (intro frac_le) simp_all
  also have "\<dots> = 4004 / T" by simp
  also have "\<dots> \<le> 4004 / (1 / 10 ^ 100)" using Tlo by (intro divide_left_mono) simp_all
  also have "\<dots> \<le> float_max" by (simp add: float_max_def)
  finally have "\<bar>p / t\<bar> \<le> float_max" using p(3) tpos by simp
  from rounding_step [OF rnd this] obtain c where
    c: "rnd (p / t) = Fin c" "\<bar>c - p / t\<bar> \<le> float_eps * \<bar>p / t\<bar> + float_tiny" "0 \<le> c"
    using p(3) tpos by force
  have "\<bar>p / t\<bar> = p / t" using p(3) tpos by (intro abs_of_nonneg) simp
  with c(2) have cq: "\<bar>c - p / t\<bar> \<le> float_eps * (p / t) + float_tiny" by (simp only:)
  have scale: "rdiv rnd (Fin p) (Fin t) = Fin c" using tpos by (simp add: rdiv_Fin c(1))
  have cT: "\<bar>c * T - D\<bar> \<le> 5 / 10 ^ 9" by (rule scale_total [OF Tpos Thi rel D pD cq])
  define g where "g ka = fin_val (rnd (r ka * c))" for ka :: "string \<times> StrategyAllocation"
  have y: "rnd (r ka * c) = Fin (g ka)
           \<and> \<bar>g ka - r ka * c\<bar> \<le> float_eps * (r ka * c) + float_tiny" if "ka \<in> set ?others" for ka
  proof -
    have r0: "0 \<le> r ka" using val that by simp
    have "r ka \<le> T" unfolding T_def using that val by (intro sum_list_member) auto
    then have "r ka * c \<le> T * c" using c(3) by (intro mult_right_mono)
    moreover have "(5::real) / 10 ^ 9 \<le> 1" by simp
    with cT D have "c * T \<le> 1002" by linarith
    moreover have "(1002::real) \<le> float_max" by (simp add: float_max_def)
    moreover have q: "0 \<le> r ka * c" using r0 c(3) by simp
    ultimately have "\<bar>r ka * c\<bar> \<le> float_max" by (simp add: mult.commute)
    from rounding_step [OF rnd this] obtain z where
      z: "rnd (r ka * c) = Fin z" "\<bar>z - r ka * c\<bar> \<le> float_eps * \<bar>r ka * c\<bar> + float_tiny"
      by blast
    have "\<bar>r ka * c\<bar> = r ka * c" using q by (rule abs_of_nonneg)
    with z show ?thesis by (simp only: g_def fin_val_def fl.case)
  qed
  have sumg: "\<bar>sum_list (map g ?others) - D\<bar> \<le> 1 / 10 ^ 6"
    using y n by (intro rescaled_sum [OF T_def Tpos Thi rel D pD cq]) simp_all
  have k_in': "k \<in> fst ` set ?d" using k_in by (simp add: dict_keys_def)
  have dist': "distinct (map fst ?d)" using dist by (simp add: dict_keys_def)
  have new: "map (\<lambda>ka. if fst ka = k then Fin m else rmul rnd (weight (snd ka)) (Fin c)) ?d
               = map (\<lambda>ka. Fin (if fst ka = k then m else g ka)) ?d"
  proof (rule map_cong [OF refl])
    fix ka assume ka: "ka \<in> set ?d"
    show "(if fst ka = k then Fin m else rmul rnd (weight (snd ka)) (Fin c))
            = Fin (if fst ka = k then m else g ka)"
    proof (cases "fst ka = k")
      case True
      then show ?thesis by simp
    next
      case False
      with ka have "ka \<in> set ?others" by simp
      with val y have "weight (snd ka) = Fin (r ka)" "rnd (r ka * c) = Fin (g ka)" by simp_all
      with False show ?thesis by (simp add: rmul_Fin)
    qed
  qed
  have "weights_total (adjust_allocation_fp rnd q k (Fin w) now)
          = py_sum (map (\<lambda>ka. Fin (if fst ka = k then m else g ka)) ?d)"
    using k_in tpos
    apply (simp add: weights_total_def adjust_allocation_fp_def Let_def others t(1) nw del: map_map)
    unfolding sub scale target_weights new
    apply (rule refl)
    done
  also have "\<dots> = Fin (sum_list (map (\<lambda>ka. if fst ka = k then m else g ka) ?d))"
    by (rule py_sum_map_Fin)
  also have "\<dots> = Fin (m + sum_list (map g ?others))"
    by (simp only: sum_split_key [OF dist' k_in'])
  finally have "weights_total (adjust_allocation_fp rnd q k (Fin w) now)
                  = Fin (m + sum_list (map g ?others))" .
  moreover have "\<bar>m + sum_list (map g ?others) - 1\<bar> \<le> 1 / 10 ^ 6"
    using sumg by (simp add: D_def algebra_simps)
  ultimately show ?thesis by (simp only: near_one_Fin)
qed

lemma single_adjust_rounded:
  "allocations q = [(k, a)]
     \<Longrightarrow> weights_total (adjust_allocation_fp rnd q k (Fin w) now) = Fin (min w 0.25)"
  by (simp add: weights_total_def adjust_allocation_fp_def dict_keys_def Let_def py_sum_def
        rsum_def py_min_def min_def)

section \<open>Lemmas on the backtest loop\<close>

lemma sharpe_short: "length rs < 2 \<Longrightarrow> calculate_sharpe_ratio rs rf = Fin 0"
  by (cases rs) (simp_all add: calculate_sharpe_ratio_def Let_def)

lemma bt_step_idle:
  "generate_signal strat (Prefix (take (i + 1) data)) = 0 \<Longrightarrow> bt_position st = None
     \<Longrightarrow> bt_step strat data st i = st"
  by (simp add: bt_step_def Let_def)

lemma bt_loop_idle_aux:
  "\<forall>x. generate_signal strat x = 0 \<Longrightarrow> bt_position st = None
     \<Longrightarrow> foldl (bt_step strat data) st is = st"
  by (induction "is" arbitrary: st) (simp_all add: bt_step_idle)

lemma bt_loop_idle:
  "\<forall>x. generate_signal strat x = 0 \<Longrightarrow> bt_trades (bt_loop strat data c) = []"
  by (simp add: bt_loop_def bt_loop_idle_aux)

lemma pf_empty: "calculate_profit_factor [] = PInf"
  by (simp add: calculate_profit_factor_def py_sum_def fne_def)

lemma flat_run:
  "run_backtest nan_indicators flat_engine flat_strategy ''X'' 0 19 (Fin 100000)
     = Inr (flat_result, flat_engine\<lparr>results_cache := [''flat'' \<mapsto> flat_result]\<rparr>)"
  by (simp add: run_backtest_def load_historical_data_def flat_engine_def flat_result_def
        detect_market_condition_def nan_indicators_def bt_loop_idle flat_strategy_def Let_def
        calculate_sharpe_ratio_def calculate_max_drawdown_def
        calculate_risk_adjusted_return_def pf_empty)

section \<open>A backtest with a winning and a losing trade\<close>

lemma bt_idle_on:
  "\<forall>i\<in>set is. generate_signal strat (Prefix (take (i + 1) data)) = 0 \<Longrightarrow> bt_position st = None
     \<Longrightarrow> foldl (bt_step strat data) st is = st"
  by (induction "is" arbitrary: st) (simp_all add: bt_step_idle)

lemma trend_length: "length trend_bars = 20"
  by (simp add: trend_bars_def)

lemma trend_first:
  "foldl (bt_step trend_strategy trend_bars)
     \<lparr>bt_trades = [], bt_capital = Fin 100000, bt_position = None\<rparr> [0, 1, 2, 3]
   = \<lparr>bt_trades = trend_trades, bt_capital = Fin 100899, bt_position = None\<rparr>"
  by (simp add: bt_step_def trend_strategy_def trend_bars_def trend_trades_def Let_def fsub_def)

lemma trend_rest:
  "foldl (bt_step trend_strategy trend_bars)
     \<lparr>bt_trades = trend_trades, bt_capital = Fin 100899, bt_position = None\<rparr> [4 ..< 20]
   = \<lparr>bt_trades = trend_trades, bt_capital = Fin 100899, bt_position = None\<rparr>"
  by (rule bt_idle_on) (auto simp: trend_strategy_def trend_length)

lemma trend_loop:
  "bt_trades (bt_loop trend_strategy trend_bars (Fin 100000)) = trend_trades"
proof -
  have a: "[0 ..< 20] = [0 ..< 4] @ [4 ..< 20]"
    using upt_add_eq_append [of 0 4 16] by simp
  have b: "[0 ..< 4] = [0, 1, 2, 3::nat]"
    by (simp add: upt_rec)
  have "bt_loop trend_strategy trend_bars (Fin 100000)
          = \<lparr>bt_trades = trend_trades, bt_capital = Fin 100899, bt_position = None\<rparr>"
    unfolding bt_loop_def trend_length a b foldl_append trend_first trend_rest ..
  then show ?thesis by simp
qed

lemma trend_returns:
  "map (\<lambda>t. fdiv (pnl t) (Fin 100000)) trend_trades = [Fin (1 / 100), Fin (- (101 / 100000))]"
  by (simp add: trend_trades_def)

lemma trend_sharpe:
  "\<exists>S. calculate_sharpe_ratio [Fin (1 / 100), Fin (- (101 / 100000))] (Fin (1 / 50)) = Fin S \<and> 0 \<le> S"
  by (simp add: calculate_sharpe_ratio_def np_mean_def np_std_def py_sum_def fsub_def Let_def)

lemma trend_drawdown:
  "calculate_max_drawdown [Fin (1 / 100), Fin (- (101 / 100000))] = Fin (101 / 100000)"
  by (simp add: calculate_max_drawdown_def np_cumprod_def np_maximum_accumulate_def
        np_maximum_def py_min_list_def py_min_def fsub_def)

lemma trend_profit_factor: "calculate_profit_factor trend_trades = Fin (1000 / 101)"
  by (simp add: calculate_profit_factor_def trend_trades_def py_sum_def fne_def)

lemma trend_risk_adjusted:
  "\<exists>R. calculate_risk_adjusted_return [Fin (1 / 100), Fin (- (101 / 100000))] = Fin R \<and> 0 \<le> R"
  by (simp add: calculate_risk_adjusted_return_def np_mean_def np_std_def py_sum_def fsub_def Let_def)

lemma trend_run:
  "run_backtest nan_indicators trend_engine trend_strategy ''SYM'' 0 19 (Fin 100000)
     = Inr (trend_result, trend_engine\<lparr>results_cache := [''T'' \<mapsto> trend_result]\<rparr>)"
  by (simp add: run_backtest_def load_historical_data_def trend_engine_def
        detect_market_condition_def nan_indicators_def trend_loop trend_returns Let_def
        trend_drawdown trend_profit_factor trend_result_def trend_sharpe_def trend_rar_def)
     (simp add: trend_trades_def trend_strategy_def)

lemma trend_evaluate:
  "evaluate_strategy \<lparr>strategy_scores = [], historical_scores = Map.empty\<rparr> [trend_result] 30
     = Inr (trend_score,
            \<lparr>strategy_scores = [(''T'', trend_score)],
             historical_scores = [''T'' \<mapsto> [trend_score]]\<rparr>)"
  by (simp add: evaluate_strategy_def Let_def trend_score_def trend_metrics_def
        calculate_consistency_def get_strategy_history_def)
     (simp add: trend_result_def)

lemma trend_score_drawdown:
  "m_max_drawdown (performance_metrics trend_score) = Fin (101 / 100000)"
  by (simp add: trend_score_def trend_metrics_def np_mean_def py_sum_def)

lemma trend_score_valid: "fle (Fin 0.4) (overall_score trend_score)"
proof -
  obtain S where S: "trend_sharpe = Fin S" "0 \<le> S"
    using trend_sharpe by (auto simp: trend_sharpe_def)
  obtain R where R: "trend_rar = Fin R" "0 \<le> R"
    using trend_risk_adjusted by (auto simp: trend_rar_def)
  have "overall_score trend_score
          = Fin ((S * 0.25 + 101 / 100000 * 0.20 + 1 / 2 * 0.15 + 1000 / 101 * 0.20 + R * 0.20) * 0.5
                 + S / 5 * 0.3)"
    by (simp add: trend_score_def trend_metrics_def calculate_overall_score_def
          analyze_market_adaptability_def trend_result_def np_mean_def py_sum_def S R Let_def)
  moreover have "0.4 \<le> (S * 0.25 + 101 / 100000 * 0.20 + 1 / 2 * 0.15 + 1000 / 101 * 0.20 + R * 0.20) * 0.5
                 + S / 5 * 0.3"
    using S(2) R(2) by (simp add: field_simps)
  ultimately show ?thesis by simp
qed

text \<open>The same strategy on the constant prices: two trades that close at their entry price.\<close>

lemma flat_length: "length flat_bars = 20"
  by (simp add: flat_bars_def)

lemma flat_nth: "i < 20 \<Longrightarrow> flat_bars ! i = \<lparr>bar_name = i, close = Fin 100\<rparr>"
  by (simp add: flat_bars_def)

lemma even_first:
  "foldl (bt_step trend_strategy flat_bars)
     \<lparr>bt_trades = [], bt_capital = Fin 100000, bt_position = None\<rparr> [0, 1, 2, 3]
   = \<lparr>bt_trades = even_trades, bt_capital = Fin 100000, bt_position = None\<rparr>"
  by (simp add: bt_step_def trend_strategy_def flat_nth flat_length even_trades_def Let_def fsub_def)

lemma even_rest:
  "foldl (bt_step trend_strategy flat_bars)
     \<lparr>bt_trades = even_trades, bt_capital = Fin 100000, bt_position = None\<rparr> [4 ..< 20]
   = \<lparr>bt_trades = even_trades, bt_capital = Fin 100000, bt_position = None\<rparr>"
  by (rule bt_idle_on) (auto simp: trend_strategy_def flat_length)

lemma even_loop:
  "bt_trades (bt_loop trend_strategy flat_bars (Fin 100000)) = even_trades"
proof -
  have a: "[0 ..< 20] = [0 ..< 4] @ [4 ..< 20]"
    using upt_add_eq_append [of 0 4 16] by simp
  have b: "[0 ..< 4] = [0, 1, 2, 3::nat]"
    by (simp add: upt_rec)
  have "bt_loop trend_strategy flat_bars (Fin 100000)
          = \<lparr>bt_trades = even_trades, bt_capital = Fin 100000, bt_position = None\<rparr>"
    unfolding bt_loop_def flat_length a b foldl_append even_first even_rest ..
  then show ?thesis by simp
qed

section \<open>Metrics of a backtest without trades\<close>

text \<open>
  Claim C3, as the code has it: when \<^verbatim>\<open>run_backtest\<close> returns a result whose trade
  list is empty, the Sharpe ratio, the maximum drawdown, the win rate and the
  risk-adjusted return are zero, and the profit factor is positive infinity, the value
  \<^verbatim>\<open>calculate_profit_factor\<close> returns whenever the gross loss is zero.
\<close>

theorem zero_trades_metrics:
  assumes "run_backtest ind eng strat symbol start_d end_d capital = Inr (r, eng')"
    and "trades r = []"
  shows "sharpe_ratio r = Fin 0 \<and> max_drawdown r = Fin 0 \<and> win_rate r = Fin 0
         \<and> risk_adjusted_return r = Fin 0 \<and> profit_factor r = PInf"
  using assms
  by (auto simp: run_backtest_def Let_def calculate_sharpe_ratio_def calculate_max_drawdown_def
        calculate_risk_adjusted_return_def pf_empty
      split: sum.splits)

theorem zero_trades_metrics_witness:
  "run_backtest nan_indicators flat_engine flat_strategy ''X'' 0 19 (Fin 100000)
     = Inr (flat_result, flat_engine\<lparr>results_cache := [''flat'' \<mapsto> flat_result]\<rparr>)
   \<and> trades flat_result = []
   \<and> sharpe_ratio flat_result = Fin 0 \<and> max_drawdown flat_result = Fin 0
   \<and> win_rate flat_result = Fin 0 \<and> risk_adjusted_return flat_result = Fin 0
   \<and> profit_factor flat_result = PInf"
proof -
  have no_trades: "trades flat_result = []" by (simp add: flat_result_def)
  show ?thesis
    using zero_trades_metrics [OF flat_run no_trades] flat_run no_trades by simp
qed

text \<open>
  The claim as stated (profit factor zero without trades) fails on the run of the
  strategy that never signals: no trade is made and the profit factor is infinite.
\<close>

theorem zero_trades_profit_factor_counterexample:
  "map_option trades
     (result_of (run_backtest nan_indicators flat_engine flat_strategy ''X'' 0 19 (Fin 100000)))
     = Some []
   \<and> map_option profit_factor
     (result_of (run_backtest nan_indicators flat_engine flat_strategy ''X'' 0 19 (Fin 100000)))
     = Some PInf
   \<and> map_option profit_factor
     (result_of (run_backtest nan_indicators flat_engine flat_strategy ''X'' 0 19 (Fin 100000)))
     \<noteq> Some (Fin 0)"
  by (simp add: flat_run result_of_def flat_result_def)

section \<open>Sharpe ratio of identical returns\<close>

text \<open>
  Claim C7 holds for fewer than two returns (lemma \<open>sharpe_short\<close>) and fails for
  identical returns: their sample standard deviation is zero and the numpy division
  yields an infinity (NaN when the mean excess return is zero as well), not zero. Two
  returns of 0, at the default risk-free rate, give negative infinity, and two returns
  of 1 percent give positive infinity. \<^verbatim>\<open>run_backtest\<close> produces the first case from
  two trades that close at their entry price.
\<close>

theorem sharpe_identical_returns_infinite:
  "calculate_sharpe_ratio [Fin 0, Fin 0] (Fin 0.02) = NInf
   \<and> calculate_sharpe_ratio [Fin 0.01, Fin 0.01] (Fin 0.02) = PInf
   \<and> map_option returns
        (result_of (run_backtest nan_indicators flat_engine trend_strategy ''X'' 0 19 (Fin 100000)))
      = Some [Fin 0, Fin 0]
   \<and> map_option sharpe_ratio
        (result_of (run_backtest nan_indicators flat_engine trend_strategy ''X'' 0 19 (Fin 100000)))
      = Some NInf"
proof -
  have z: "calculate_sharpe_ratio [Fin 0, Fin 0] (Fin (1 / 50)) = NInf"
    by (simp add: calculate_sharpe_ratio_def np_mean_def np_std_def py_sum_def fsub_def
          inf_of_sign_def Let_def)
  have p: "calculate_sharpe_ratio [Fin 0.01, Fin 0.01] (Fin 0.02) = PInf"
    by (simp add: calculate_sharpe_ratio_def np_mean_def np_std_def py_sum_def fsub_def
          inf_of_sign_def Let_def)
  have r: "map (\<lambda>t. fdiv (pnl t) (Fin 100000)) even_trades = [Fin 0, Fin 0]"
    by (simp add: even_trades_def)
  show ?thesis
    using z p
    by (simp add: run_backtest_def result_of_def load_historical_data_def flat_engine_def
          detect_market_condition_def nan_indicators_def even_loop r Let_def)
qed

section \<open>The sum of the weights\<close>

text \<open>
  Claim C1, as the code has it, in rounded arithmetic: for every rounding of the
  operations, every rounding of the power and every \<^verbatim>\<open>np.sum\<close> that keep the error
  bounds of IEEE 754. After \<^verbatim>\<open>update_portfolio\<close> on a list with at least one and at
  most 1000 scores of at least 0.4, whose ids are pairwise distinct and whose drawdowns
  are finite with a magnitude between \<open>10\<^sup>-\<^sup>1\<^sup>0\<^sup>0\<close> and \<open>10\<^sup>1\<^sup>0\<^sup>0\<close>, the call returns, the
  allocation map is not empty and the weights sum to 1 within \<open>10\<^sup>-\<^sup>6\<close>. After
  \<^verbatim>\<open>adjust_allocation\<close> with a new weight of at least -1000 on an allocated strategy
  of a portfolio of at most 1000 allocations (with distinct keys, as a dictionary has
  them), the weights sum to 1 within \<open>10\<^sup>-\<^sup>6\<close> whenever the other allocations have
  finite, non-negative weights whose total lies between \<open>10\<^sup>-\<^sup>1\<^sup>0\<^sup>0\<close> and \<open>10\<^sup>1\<^sup>0\<^sup>0\<close>. When
  that strategy is the only allocation, nothing is rescaled and the sum is the smaller
  of the new weight and 0.25, whatever the rounding. The sum of the weights is their
  sum as real numbers, and the bounds on the magnitudes keep every intermediate result
  away from overflow and underflow.
\<close>

theorem weights_sum_near_one:
  "(ieee_rounding rnd \<and> ieee_rounding rnd_pow \<and> ieee_summation np_sum
      \<and> filter (\<lambda>s. fle (Fin 0.4) (overall_score s)) scores \<noteq> []
      \<and> length (filter (\<lambda>s. fle (Fin 0.4) (overall_score s)) scores) \<le> 1000
      \<and> distinct (map score_id (filter (\<lambda>s. fle (Fin 0.4) (overall_score s)) scores))
      \<and> (\<forall>s\<in>set (filter (\<lambda>s. fle (Fin 0.4) (overall_score s)) scores).
            \<exists>d. m_max_drawdown (performance_metrics s) = Fin d
                \<and> 1 / 10 ^ 100 \<le> \<bar>d\<bar> \<and> \<bar>d\<bar> \<le> 10 ^ 100)
      \<longrightarrow> (\<exists>p'. update_portfolio_fp np_arith rnd_pow rnd np_sum p scores now = Inr p'
                \<and> allocations p' \<noteq> []
                \<and> near_one (weights_total p')))
   \<and> (ieee_rounding rnd
      \<and> k \<in> set (dict_keys (allocations q))
      \<and> distinct (dict_keys (allocations q))
      \<and> length (allocations q) \<le> 1000
      \<and> (\<forall>ka\<in>set (allocations q). fst ka \<noteq> k \<longrightarrow> (\<exists>x. weight (snd ka) = Fin x \<and> 0 \<le> x))
      \<and> fle (Fin (1 / 10 ^ 100))
             (py_sum (map (\<lambda>ka. weight (snd ka)) (filter (\<lambda>ka. fst ka \<noteq> k) (allocations q))))
      \<and> fle (py_sum (map (\<lambda>ka. weight (snd ka)) (filter (\<lambda>ka. fst ka \<noteq> k) (allocations q))))
             (Fin (10 ^ 100))
      \<and> - 1000 \<le> w
      \<longrightarrow> near_one (weights_total (adjust_allocation_fp rnd q k (Fin w) now')))
   \<and> (allocations r = [(k', a)]
      \<longrightarrow> weights_total (adjust_allocation_fp rnd r k' (Fin w') now'') = Fin (min w' 0.25))"
proof (intro conjI impI)
  let ?valid = "filter (\<lambda>s. fle (Fin 0.4) (overall_score s)) scores"
  assume h: "ieee_rounding rnd \<and> ieee_rounding rnd_pow \<and> ieee_summation np_sum
      \<and> ?valid \<noteq> [] \<and> length ?valid \<le> 1000 \<and> distinct (map score_id ?valid)
      \<and> (\<forall>s\<in>set ?valid.
            \<exists>d. m_max_drawdown (performance_metrics s) = Fin d
                \<and> 1 / 10 ^ 100 \<le> \<bar>d\<bar> \<and> \<bar>d\<bar> \<le> 10 ^ 100)"
  have v: "?valid = filter (\<lambda>s. fle min_score_threshold (overall_score s)) scores"
    by (simp add: min_score_threshold_def)
  from h have "\<exists>p'. update_portfolio_fp np_arith rnd_pow rnd np_sum p scores now = Inr p'
              \<and> map fst (allocations p') = map score_id ?valid
              \<and> near_one (weights_total p')"
    by (intro update_portfolio_rounded [OF _ _ _ v]) simp_all
  then obtain p' where p': "update_portfolio_fp np_arith rnd_pow rnd np_sum p scores now = Inr p'"
      "map fst (allocations p') = map score_id ?valid" "near_one (weights_total p')" by blast
  from p'(2) h have "allocations p' \<noteq> []" by auto
  with p'(1,3)
  show "\<exists>p'. update_portfolio_fp np_arith rnd_pow rnd np_sum p scores now = Inr p'
             \<and> allocations p' \<noteq> [] \<and> near_one (weights_total p')" by blast
next
  assume h: "ieee_rounding rnd
      \<and> k \<in> set (dict_keys (allocations q))
      \<and> distinct (dict_keys (allocations q))
      \<and> length (allocations q) \<le> 1000
      \<and> (\<forall>ka\<in>set (allocations q). fst ka \<noteq> k \<longrightarrow> (\<exists>x. weight (snd ka) = Fin x \<and> 0 \<le> x))
      \<and> fle (Fin (1 / 10 ^ 100))
             (py_sum (map (\<lambda>ka. weight (snd ka)) (filter (\<lambda>ka. fst ka \<noteq> k) (allocations q))))
      \<and> fle (py_sum (map (\<lambda>ka. weight (snd ka)) (filter (\<lambda>ka. fst ka \<noteq> k) (allocations q))))
             (Fin (10 ^ 100))
      \<and> - 1000 \<le> w"
  then show "near_one (weights_total (adjust_allocation_fp rnd q k (Fin w) now'))"
    by (intro adjust_allocation_rounded) simp_all
next
  assume "allocations r = [(k', a)]"
  then show "weights_total (adjust_allocation_fp rnd r k' (Fin w') now'') = Fin (min w' 0.25)"
    by (rule single_adjust_rounded)
qed

theorem weights_sum_near_one_witness:
  "update_portfolio_fp True Fin Fin py_sum (new_portfolio (Fin 1000000)) (three_scores 0.1) 10
     = Inr three_portfolio
   \<and> near_one (weights_total three_portfolio)
   \<and> (\<exists>p'. update_portfolio_fp False rounding_up rounding_up (rsum rounding_up)
               (new_portfolio (Fin 1000000)) (three_scores 0.1) 10 = Inr p'
            \<and> allocations p' \<noteq> []
            \<and> near_one (weights_total p'))
   \<and> near_one (weights_total (adjust_allocation_fp rounding_up three_portfolio ''A'' (Fin 0.1) 20))
   \<and> weights_total (adjust_allocation_fp rounding_up single_portfolio ''A'' (Fin 0.3) 20) = Fin 0.25"
proof -
  have valid: "filter (\<lambda>s. fle (Fin 0.4) (overall_score s)) (three_scores 0.1) = three_scores 0.1"
    by (simp add: three_scores_def example_score_def)
  have scores: "filter (\<lambda>s. fle (Fin 0.4) (overall_score s)) (three_scores 0.1) \<noteq> []
      \<and> length (filter (\<lambda>s. fle (Fin 0.4) (overall_score s)) (three_scores 0.1)) \<le> 1000
      \<and> distinct (map score_id (filter (\<lambda>s. fle (Fin 0.4) (overall_score s)) (three_scores 0.1)))
      \<and> (\<forall>s\<in>set (filter (\<lambda>s. fle (Fin 0.4) (overall_score s)) (three_scores 0.1)).
            \<exists>d. m_max_drawdown (performance_metrics s) = Fin d
                \<and> 1 / 10 ^ 100 \<le> \<bar>d\<bar> \<and> \<bar>d\<bar> \<le> 10 ^ 100)"
    unfolding valid
    by (intro conjI ballI exI [of _ "1 / 10"])
       (auto simp: three_scores_def example_score_def example_metrics_def)
  have others: "''A'' \<in> set (dict_keys (allocations three_portfolio))
      \<and> distinct (dict_keys (allocations three_portfolio))
      \<and> length (allocations three_portfolio) \<le> 1000
      \<and> (\<forall>ka\<in>set (allocations three_portfolio).
            fst ka \<noteq> ''A'' \<longrightarrow> (\<exists>x. weight (snd ka) = Fin x \<and> 0 \<le> x))
      \<and> fle (Fin (1 / 10 ^ 100))
             (py_sum (map (\<lambda>ka. weight (snd ka))
                          (filter (\<lambda>ka. fst ka \<noteq> ''A'') (allocations three_portfolio))))
      \<and> fle (py_sum (map (\<lambda>ka. weight (snd ka))
                          (filter (\<lambda>ka. fst ka \<noteq> ''A'') (allocations three_portfolio))))
             (Fin (10 ^ 100))
      \<and> - 1000 \<le> (0.1::real)"
    by (intro conjI ballI impI exI [of _ "1 / 3"])
       (auto simp: three_portfolio_allocations dict_keys_def make_allocation_def py_sum_def)
  have single: "allocations single_portfolio =
              [(''A'', make_allocation (Fin 1000000) 10 ''A'' (Fin 1) (example_score ''A'' 0.5 0.1))]"
    by (rule single_allocations)
  have m: "min (0.3::real) 0.25 = 0.25" by simp
  have exact: "update_portfolio_fp True Fin Fin py_sum (new_portfolio (Fin 1000000)) (three_scores 0.1) 10
                 = Inr three_portfolio"
    by (simp add: update_portfolio_exact three_portfolio_def)
  from weights_sum_near_one
         [where rnd = Fin and rnd_pow = Fin and np_sum = py_sum and scores = "three_scores 0.1" and np_arith = True
            and p = "new_portfolio (Fin 1000000)" and now = 10]
       exact_rounding exact_summation scores
  have a: "near_one (weights_total three_portfolio)" unfolding exact by blast
  from weights_sum_near_one
         [where rnd = rounding_up and rnd_pow = rounding_up and np_sum = "rsum rounding_up" and scores = "three_scores 0.1"
            and np_arith = False and p = "new_portfolio (Fin 1000000)" and now = 10
            and k = "''A''" and q = three_portfolio and w = "0.1" and now' = 20
            and r = single_portfolio and k' = "''A''" and w' = "0.3" and now'' = 20
            and a = "make_allocation (Fin 1000000) 10 ''A'' (Fin 1) (example_score ''A'' 0.5 0.1)"]
       rounding_up_ieee rsum_accurate [OF rounding_up_ieee] scores others single
  have b: "(\<exists>p'. update_portfolio_fp False rounding_up rounding_up (rsum rounding_up)
               (new_portfolio (Fin 1000000)) (three_scores 0.1) 10 = Inr p'
            \<and> allocations p' \<noteq> []
            \<and> near_one (weights_total p'))
   \<and> near_one (weights_total (adjust_allocation_fp rounding_up three_portfolio ''A'' (Fin 0.1) 20))
   \<and> weights_total (adjust_allocation_fp rounding_up single_portfolio ''A'' (Fin 0.3) 20) = Fin 0.25"
    unfolding m by blast
  from exact a b show ?thesis by blast
qed

text \<open>
  The claim as stated fails where the portfolio holds one strategy: there is no other
  weight to rescale, and the sum is the clamped new weight. It also fails for scores
  whose drawdown is zero, where every weight is NaN.
\<close>

theorem weights_sum_counterexample:
  "allocations (adjust_allocation single_portfolio ''A'' (Fin 0.1) 20) \<noteq> []
   \<and> weights_total (adjust_allocation single_portfolio ''A'' (Fin 0.1) 20) = Fin 0.1
   \<and> \<not> near_one (weights_total (adjust_allocation single_portfolio ''A'' (Fin 0.1) 20))
   \<and> allocations (update_portfolio (new_portfolio (Fin 1000000)) (three_scores 0) 10) \<noteq> []
   \<and> weights_total (update_portfolio (new_portfolio (Fin 1000000)) (three_scores 0) 10) = NaN
   \<and> \<not> near_one (weights_total (update_portfolio (new_portfolio (Fin 1000000)) (three_scores 0) 10))"
proof -
  have a: "allocations (adjust_allocation single_portfolio ''A'' (Fin 0.1) 20) \<noteq> []"
    by (simp add: adjust_allocation_def single_allocations dict_keys_def Let_def)
  have b: "map (\<lambda>ka. weight (snd ka))
             (allocations (update_portfolio (new_portfolio (Fin 1000000)) (three_scores 0) 10))
           = [NaN, NaN, NaN]"
    by (simp add: update_portfolio_def three_scores_valid Let_def optimize_weights_def
          np_diag_covariance three_scores_def example_score_def example_metrics_def
          py_sum_def inf_of_sign_def make_allocation_def min_score_threshold_def)
  then have c: "allocations (update_portfolio (new_portfolio (Fin 1000000)) (three_scores 0) 10) \<noteq> []"
    by auto
  have d: "weights_total (update_portfolio (new_portfolio (Fin 1000000)) (three_scores 0) 10) = NaN"
    unfolding weights_total_def b by (simp add: py_sum_def)
  show ?thesis
    by (simp add: a c d single_adjust near_one_def fsub_def)
qed

text \<open>
  Ids that occur twice among the valid scores share one entry of the weight
  dictionary, and the weights that remain sum to less than 1.
\<close>

lemma duplicate_ids_total:
  "weights_total (update_portfolio (new_portfolio (Fin 1000000))
                    [example_score ''A'' 0.5 1, example_score ''A'' 0.6 1] 10) = Fin 0.5"
  by (simp add: weights_total_def update_portfolio_def min_score_threshold_def Let_def
        optimize_weights_def np_diag_covariance example_score_def example_metrics_def
        py_sum_def make_allocation_def)

section \<open>The cap on a weight\<close>

text \<open>
  Claim C2 fails on the code: \<^verbatim>\<open>update_portfolio\<close> stores the normalised weight as
  it is and only records \<open>min(0.25, 1.5 * weight)\<close> as \<^verbatim>\<open>max_allocation\<close>. Three
  strategies of equal drawdown get a weight of one third each, above 0.25 and above
  their own \<^verbatim>\<open>max_allocation\<close> of 0.25.
\<close>

theorem weights_exceed_cap:
  "map (\<lambda>ka. (fst ka, weight (snd ka), max_allocation (snd ka),
              fle (weight (snd ka)) (Fin 0.25), fle (weight (snd ka)) (max_allocation (snd ka))))
       (allocations (update_portfolio (new_portfolio (Fin 1000000)) (three_scores 0.1) 10))
     = [(''A'', Fin (1 / 3), Fin 0.25, False, False),
        (''B'', Fin (1 / 3), Fin 0.25, False, False),
        (''C'', Fin (1 / 3), Fin 0.25, False, False)]"
  using three_portfolio_allocations
  by (simp add: three_portfolio_def make_allocation_def py_min_def)

section \<open>Scores with a drawdown of zero\<close>

text \<open>
  Claim C4 fails on the code: \<^verbatim>\<open>_optimize_weights\<close> has no floor on the variance.
  For three valid scores with a drawdown of 0 the reciprocal of the square root of the
  variance is infinite, the sum is infinite, and every weight is \<open>inf/inf\<close>, that is NaN.
\<close>

theorem zero_drawdown_weights_nan:
  "map (\<lambda>ka. weight (snd ka))
       (allocations (update_portfolio (new_portfolio (Fin 1000000)) (three_scores 0) 10))
     = [NaN, NaN, NaN]"
  by (simp add: update_portfolio_def three_scores_valid Let_def optimize_weights_def
        np_diag_covariance three_scores_def example_score_def example_metrics_def
        py_sum_def inf_of_sign_def make_allocation_def min_score_threshold_def)

section \<open>No valid score\<close>

text \<open>
  Claim C5: when no score of the list reaches 0.4 (the empty list included),
  \<^verbatim>\<open>update_portfolio\<close> changes nothing: the portfolio is the one before, so the
  allocation map is unchanged and no snapshot is appended.
\<close>

theorem update_below_threshold_noop:
  assumes "\<forall>s\<in>set scores. \<not> fle (Fin 0.4) (overall_score s)"
  shows "update_portfolio p scores now = p
         \<and> allocations (update_portfolio p scores now) = allocations p
         \<and> length (historical_performance (update_portfolio p scores now))
             = length (historical_performance p)"
proof -
  from assms have "filter (\<lambda>s. fle min_score_threshold (overall_score s)) scores = []"
    by (simp add: min_score_threshold_def filter_empty_conv)
  then have "update_portfolio p scores now = p"
    by (simp add: update_portfolio_def)
  then show ?thesis by simp
qed

theorem update_below_threshold_noop_witness:
  "allocations three_portfolio \<noteq> []
   \<and> update_portfolio three_portfolio [] 5 = three_portfolio
   \<and> update_portfolio three_portfolio [example_score ''Z'' 0.39 0.1] 5 = three_portfolio"
proof -
  have low: "\<forall>s\<in>set [example_score ''Z'' 0.39 0.1]. \<not> fle (Fin 0.4) (overall_score s)"
    by (simp add: example_score_def)
  have none: "\<forall>s\<in>set ([] :: StrategyScore list). \<not> fle (Fin 0.4) (overall_score s)"
    by simp
  show ?thesis
    using update_below_threshold_noop [OF none, of three_portfolio 5]
          update_below_threshold_noop [OF low, of three_portfolio 5]
    by (simp add: three_portfolio_allocations)
qed

section \<open>Retirement\<close>






section \<open>Recommendation\<close>

lemma rec_loop:
  assumes "distinct (map fst strats)"
    and "fst ` set strats \<inter> fst ` set recs = {}"
    and "\<forall>ks\<in>set (filter (contributes p symbol) strats). get_confidence (snd ks) \<noteq> None"
  shows "foldl (rec_step p symbol) (Inr (recs, tw)) strats =
           Inr (recs @ map (contribution_of p symbol) (filter (contributes p symbol) strats),
                foldl fadd tw (map (\<lambda>ks. allocated_weight p (fst ks))
                                   (filter (contributes p symbol) strats)))"
  using assms
proof (induction strats arbitrary: recs tw)
  case Nil
  then show ?case by simp
next
  case (Cons ks strats)
  show ?case
  proof (cases "contributes p symbol ks")
    case False
    then have step: "rec_step p symbol (Inr (recs, tw)) ks = Inr (recs, tw)"
      by (auto simp: rec_step_def contributes_def Let_def split: option.splits)
    from Cons.prems have "fst ` set strats \<inter> fst ` set recs = {}" by auto
    with Cons.IH [of recs tw] Cons.prems False step show ?thesis by simp
  next
    case True
    then obtain a where a: "dict_get (allocations p) (fst ks) = Some a"
      and sig: "generate_signal (snd ks) (Symbol symbol) \<noteq> 0"
      by (auto simp: contributes_def)
    from True Cons.prems(3) obtain c where c: "get_confidence (snd ks) = Some c" by auto
    have fresh: "fst ks \<notin> fst ` set recs" using Cons.prems(2) by auto
    let ?e = "contribution_of p symbol ks"
    have e: "?e = (fst ks, \<lparr>c_signal = generate_signal (snd ks) (Symbol symbol),
                             c_weight = weight a, c_confidence = c\<rparr>)"
      by (simp add: contribution_of_def allocated_weight_def the_confidence_def a c)
    have step: "rec_step p symbol (Inr (recs, tw)) ks
                  = Inr (recs @ [?e], fadd tw (allocated_weight p (fst ks)))"
      using sig by (simp add: rec_step_def Let_def a c e dict_set_fresh [OF fresh] allocated_weight_def)
    have disj: "fst ` set strats \<inter> fst ` set (recs @ [?e]) = {}"
      using Cons.prems(1,2) by (auto simp: contribution_of_def)
    from Cons.IH [of "recs @ [?e]" "fadd tw (allocated_weight p (fst ks))"] Cons.prems disj True step
    show ?thesis by simp
  qed
qed

text \<open>
  Claim C8: when every contributing strategy provides its confidence and the division
  by the total weight is defined (numpy scalars, or a total other than zero),
  \<^verbatim>\<open>get_strategy_recommendation\<close> answers HOLD at confidence 0.0 if no strategy
  contributes, and otherwise BUY for a weighted signal above 0.2, SELL below -0.2 and
  HOLD in between, with the absolute weighted signal as confidence. Scenario E gives
  0.28 and BUY.
\<close>

theorem recommendation_weighted_signal:
  assumes dist: "distinct (dict_keys (strategies sys))"
    and conf: "\<forall>ks\<in>set (contributing sys symbol). get_confidence (snd ks) \<noteq> None"
    and division: "np_arith \<or> py_sum (map (\<lambda>ks. allocated_weight (portfolio sys) (fst ks))
                                         (contributing sys symbol)) \<noteq> Fin 0"
  shows "get_strategy_recommendation np_arith sys symbol =
           (if contributing sys symbol = []
            then \<lparr>rec_action = HOLD, rec_confidence = Fin 0, contributing_strategies = None\<rparr>
            else \<lparr>rec_action = (if flt (Fin 0.2) (weighted_signal sys symbol) then BUY
                                else if flt (weighted_signal sys symbol) (Fin (- 0.2)) then SELL
                                else HOLD),
                  rec_confidence = fabs (weighted_signal sys symbol),
                  contributing_strategies =
                    Some (map (contribution_of (portfolio sys) symbol) (contributing sys symbol))\<rparr>)"
proof -
  let ?p = "portfolio sys"
  let ?cs = "contributing sys symbol"
  have loop: "foldl (rec_step ?p symbol) (Inr ([], Fin 0)) (strategies sys) =
                Inr (map (contribution_of ?p symbol) ?cs,
                     py_sum (map (\<lambda>ks. allocated_weight ?p (fst ks)) ?cs))"
    using rec_loop [of "strategies sys" "[]" ?p symbol "Fin 0"] dist conf
    by (simp add: dict_keys_def contributing_def py_sum_def)
  have num: "map (\<lambda>kr. fmul (fmul (Fin (of_int (c_signal (snd kr)))) (c_weight (snd kr)))
                          (c_confidence (snd kr)))
                 (map (contribution_of ?p symbol) ?cs)
             = map (\<lambda>ks. fmul (fmul (Fin (of_int (generate_signal (snd ks) (Symbol symbol))))
                                     (allocated_weight ?p (fst ks)))
                               (the_confidence (snd ks))) ?cs"
    by (simp add: contribution_of_def)
  show ?thesis
  proof (cases "?cs = []")
    case True
    then show ?thesis
      by (simp add: get_strategy_recommendation_def loop hold_fallback_def)
  next
    case False
    have ok: "py_truediv np_arith a (py_sum (map (\<lambda>ks. allocated_weight ?p (fst ks)) ?cs))
                = Inr (fdiv a (py_sum (map (\<lambda>ks. allocated_weight ?p (fst ks)) ?cs)))" for a
      using division by (auto simp: py_truediv_def)
    from False show ?thesis
      by (simp add: get_strategy_recommendation_def loop num ok weighted_signal_def
            del: map_map)
  qed
qed

lemma portfolio_e_allocations:
  "allocations portfolio_e =
     [(''A'', make_allocation (Fin 1000000) 10 ''A'' (Fin (3 / 5)) (example_score ''A'' 0.5 (1 / 3))),
      (''B'', make_allocation (Fin 1000000) 10 ''B'' (Fin (2 / 5)) (example_score ''B'' 0.5 (1 / 2)))]"
proof -
  let ?v = "[example_score ''A'' 0.5 (1 / 3), example_score ''B'' 0.5 (1 / 2)]"
  have valid: "?v = filter (\<lambda>s. fle min_score_threshold (overall_score s)) ?v"
    by (simp add: example_score_def min_score_threshold_def)
  have dist: "distinct (map score_id ?v)" by (simp add: example_score_def)
  have fin: "\<forall>s\<in>set ?v. \<exists>d. m_max_drawdown (performance_metrics s) = Fin d \<and> d \<noteq> 0"
  proof
    fix s assume "s \<in> set ?v"
    then consider "s = example_score ''A'' 0.5 (1 / 3)" | "s = example_score ''B'' 0.5 (1 / 2)"
      by auto
    then show "\<exists>d. m_max_drawdown (performance_metrics s) = Fin d \<and> d \<noteq> 0"
    proof cases
      case 1
      then show ?thesis
        by (intro exI [of _ "1 / 3"]) (simp add: example_score_def example_metrics_def)
    next
      case 2
      then show ?thesis
        by (intro exI [of _ "1 / 2"]) (simp add: example_score_def example_metrics_def)
    qed
  qed
  have "allocations (update_portfolio (new_portfolio (Fin 1000000)) ?v 10) =
          map (\<lambda>s. (score_id s,
                     make_allocation (current_capital (new_portfolio (Fin 1000000))) 10 (score_id s)
                       (Fin (inverse_risk s / sum_list (map inverse_risk ?v))) s)) ?v"
    by (rule update_portfolio_allocations [OF valid _ dist fin]) simp
  then show ?thesis
    by (simp add: portfolio_e_def inverse_risk_def example_score_def example_metrics_def
          fin_val_def new_portfolio_def)
qed

lemma system_e_contributing:
  "contributing system_e ''SYM'' = strategies system_e"
  by (simp add: contributing_def system_e_def portfolio_e_allocations contributes_def dict_get_def signal_strategy_def)

lemma system_e_signal: "weighted_signal system_e ''SYM'' = Fin 0.28"
  unfolding weighted_signal_def system_e_contributing
  by (simp add: system_e_def portfolio_e_allocations allocated_weight_def dict_get_def make_allocation_def
        the_confidence_def signal_strategy_def py_sum_def)

theorem recommendation_weighted_signal_witness:
  "weighted_signal system_e ''SYM'' = Fin 0.28
   \<and> rec_action (get_strategy_recommendation True system_e ''SYM'') = BUY
   \<and> rec_confidence (get_strategy_recommendation True system_e ''SYM'') = Fin 0.28
   \<and> rec_action (get_strategy_recommendation False system_e ''SYM'') = BUY
   \<and> rec_confidence (get_strategy_recommendation False system_e ''SYM'') = Fin 0.28
   \<and> get_strategy_recommendation True (new_system (Fin 1000000)) ''SYM''
       = \<lparr>rec_action = HOLD, rec_confidence = Fin 0, contributing_strategies = None\<rparr>"
proof -
  have dist: "distinct (dict_keys (strategies system_e))"
    by (simp add: system_e_def portfolio_e_allocations dict_keys_def)
  have conf: "\<forall>ks\<in>set (contributing system_e ''SYM''). get_confidence (snd ks) \<noteq> None"
    unfolding system_e_contributing by (simp add: system_e_def portfolio_e_allocations signal_strategy_def)
  have total: "py_sum (map (\<lambda>ks. allocated_weight (portfolio system_e) (fst ks))
                           (contributing system_e ''SYM'')) = Fin 1"
    unfolding system_e_contributing
    by (simp add: system_e_def portfolio_e_allocations allocated_weight_def dict_get_def make_allocation_def py_sum_def)
  have d1: "True \<or> py_sum (map (\<lambda>ks. allocated_weight (portfolio system_e) (fst ks))
                               (contributing system_e ''SYM'')) \<noteq> Fin 0" by simp
  have d2: "False \<or> py_sum (map (\<lambda>ks. allocated_weight (portfolio system_e) (fst ks))
                                (contributing system_e ''SYM'')) \<noteq> Fin 0"
    unfolding total by simp
  have ne: "contributing system_e ''SYM'' \<noteq> []"
    unfolding system_e_contributing by (simp add: system_e_def portfolio_e_allocations)
  have dist0: "distinct (dict_keys (strategies (new_system (Fin 1000000))))"
    by (simp add: new_system_def dict_keys_def)
  have empty0: "contributing (new_system (Fin 1000000)) ''SYM'' = []"
    by (simp add: contributing_def new_system_def)
  have conf0: "\<forall>ks\<in>set (contributing (new_system (Fin 1000000)) ''SYM'').
                 get_confidence (snd ks) \<noteq> None"
    unfolding empty0 by simp
  have d0: "True \<or> py_sum (map (\<lambda>ks. allocated_weight (portfolio (new_system (Fin 1000000))) (fst ks))
                               (contributing (new_system (Fin 1000000)) ''SYM'')) \<noteq> Fin 0" by simp
  show ?thesis
    using recommendation_weighted_signal [OF dist conf d1]
          recommendation_weighted_signal [OF dist conf d2]
          recommendation_weighted_signal [OF dist0 conf0 d0]
    by (simp add: ne empty0 system_e_signal)
qed

section \<open>A strategy without a confidence\<close>

text \<open>
  Claim C9 fails on the code: the loop calls \<^verbatim>\<open>strategy.get_confidence()\<close> without
  asking whether the method exists. For a single allocated strategy of weight 1 that
  signals 1 and has no such method, the call raises, the handler answers HOLD at
  confidence 0.0, and nothing contributes; with confidence 1 the weighted signal would
  be 1.
\<close>

theorem missing_confidence_holds:
  "get_strategy_recommendation True system_no_confidence ''SYM''
     = \<lparr>rec_action = HOLD, rec_confidence = Fin 0, contributing_strategies = None\<rparr>
   \<and> get_strategy_recommendation False system_no_confidence ''SYM''
     = \<lparr>rec_action = HOLD, rec_confidence = Fin 0, contributing_strategies = None\<rparr>
   \<and> map (\<lambda>ka. (fst ka, weight (snd ka))) (allocations (portfolio system_no_confidence))
     = [(''A'', Fin 1)]
   \<and> map (\<lambda>ks. (fst ks, generate_signal (snd ks) (Symbol ''SYM''), get_confidence (snd ks)))
         (strategies system_no_confidence)
     = [(''A'', 1, None)]
   \<and> weighted_signal system_no_confidence ''SYM'' = Fin 1"
  by (simp add: get_strategy_recommendation_def system_no_confidence_def rec_step_def
        single_allocations dict_get_def signal_strategy_def hold_fallback_def Let_def
        make_allocation_def weighted_signal_def contributing_def contributes_def
        allocated_weight_def the_confidence_def py_sum_def)

section \<open>Retiring a strategy\<close>

lemma update_keeps_rest:
  "evaluator (als_update_portfolio sys now) = evaluator sys"
  "strategies (als_update_portfolio sys now) = strategies sys"
  by (simp_all add: als_update_portfolio_def Let_def)

lemma retire_evaluator: "evaluator (retire_strategy sys k now) = evaluator sys"
  by (simp add: retire_strategy_def Let_def update_keeps_rest)

lemma retire_registry: "k \<notin> set (dict_keys (strategies (retire_strategy sys k now)))"
  by (auto simp: retire_strategy_def Let_def update_keeps_rest dict_del_def dict_keys_def)

lemma map_of_by_id:
  "k \<in> score_id ` set xs
     \<Longrightarrow> \<exists>s\<in>set xs. map_of (map (\<lambda>s. (score_id s, f s)) xs) k = Some (f s)"
  by (induction xs) auto

lemma update_allocates_valid:
  assumes dist: "distinct (map score_id (cached_valid_scores sys))"
    and fin: "\<forall>s\<in>set (cached_valid_scores sys).
                \<exists>d. m_max_drawdown (performance_metrics s) = Fin d \<and> d \<noteq> 0"
    and k: "k \<in> score_id ` set (cached_valid_scores sys)"
  shows "\<exists>a. dict_get (allocations (portfolio (als_update_portfolio sys now))) k = Some a
             \<and> flt (Fin 0) (weight a)"
proof -
  let ?v = "cached_valid_scores sys"
  have ne: "?v \<noteq> []" using k by auto
  have v: "?v = filter (\<lambda>s. fle min_score_threshold (overall_score s)) ?v"
    by (simp add: cached_valid_scores_def min_score_threshold_def)
  have S: "0 < sum_list (map inverse_risk ?v)"
    by (rule optimize_weights_finite(2) [OF ne dist fin])
  have allocs: "allocations (portfolio (als_update_portfolio sys now)) =
          map (\<lambda>s. (score_id s,
                     make_allocation (current_capital (portfolio sys)) now (score_id s)
                       (Fin (inverse_risk s / sum_list (map inverse_risk ?v))) s)) ?v"
  proof -
    have "portfolio (als_update_portfolio sys now) = update_portfolio (portfolio sys) ?v now"
      by (simp add: als_update_portfolio_def Let_def cached_valid_scores_def)
    then show ?thesis
      by (simp only: update_portfolio_allocations [OF v ne dist fin])
  qed
  let ?A = "\<lambda>s. make_allocation (current_capital (portfolio sys)) now (score_id s)
                 (Fin (inverse_risk s / sum_list (map inverse_risk ?v))) s"
  from map_of_by_id [OF k, of ?A] obtain s where s: "s \<in> set ?v"
    and found: "map_of (map (\<lambda>s. (score_id s, ?A s)) ?v) k = Some (?A s)"
    by (elim bexE)
  from fin s have "0 < inverse_risk s" by (auto simp: inverse_risk_def fin_val_def)
  with S have "flt (Fin 0) (Fin (inverse_risk s / sum_list (map inverse_risk ?v)))" by simp
  then have "flt (Fin 0) (weight (?A s))" by (simp add: make_allocation_def)
  moreover have "dict_get (allocations (portfolio (als_update_portfolio sys now))) k = Some (?A s)"
    by (simp only: dict_get_def allocs found)
  ultimately show ?thesis by blast
qed

lemma retire_reallocates:
  assumes dist: "distinct (map score_id (cached_valid_scores sys))"
    and fin: "\<forall>s\<in>set (cached_valid_scores sys).
                \<exists>d. m_max_drawdown (performance_metrics s) = Fin d \<and> d \<noteq> 0"
    and k: "k \<in> score_id ` set (cached_valid_scores sys)"
    and reg: "k \<in> set (dict_keys (strategies sys))"
  shows "\<exists>a. dict_get (allocations (portfolio (retire_strategy sys k now))) k = Some a
             \<and> flt (Fin 0) (weight a)"
proof -
  let ?p1 = "if k \<in> set (dict_keys (allocations (portfolio sys)))
             then adjust_allocation (portfolio sys) k (Fin 0) now else portfolio sys"
  let ?s1 = "sys\<lparr>portfolio := ?p1, strategies := dict_del (strategies sys) k\<rparr>"
  have r: "retire_strategy sys k now = als_update_portfolio ?s1 now"
    using reg by (simp add: retire_strategy_def Let_def)
  have c: "cached_valid_scores ?s1 = cached_valid_scores sys"
    by (simp add: cached_valid_scores_def)
  have "\<exists>a. dict_get (allocations (portfolio (als_update_portfolio ?s1 now))) k = Some a
             \<and> flt (Fin 0) (weight a)"
  proof (rule update_allocates_valid)
    show "distinct (map score_id (cached_valid_scores ?s1))" unfolding c by (rule dist)
    show "\<forall>s\<in>set (cached_valid_scores ?s1).
            \<exists>d. m_max_drawdown (performance_metrics s) = Fin d \<and> d \<noteq> 0"
      unfolding c by (rule fin)
    show "k \<in> score_id ` set (cached_valid_scores ?s1)" unfolding c by (rule k)
  qed
  then show ?thesis unfolding r .
qed

lemma system_evaluated_eq:
  "system_evaluated =
     system_added
       \<lparr>backtest_engine := trend_engine\<lparr>results_cache := [''T'' \<mapsto> trend_result]\<rparr>,
        evaluator := \<lparr>strategy_scores = [(''T'', trend_score)],
                      historical_scores = [''T'' \<mapsto> [trend_score]]\<rparr>\<rparr>"
  by (simp add: system_evaluated_def als_evaluate_strategy_def system_added_def
        system_loaded_def new_system_def dict_get_def trend_run trend_evaluate)

lemma trend_system_parts:
  "strategies trend_system = [(''T'', trend_strategy)]"
  "strategy_scores (evaluator trend_system) = [(''T'', trend_score)]"
  "cached_valid_scores trend_system = [trend_score]"
proof -
  have v: "fle (Fin (2 / 5)) (overall_score trend_score)"
    using trend_score_valid by simp
  show "strategies trend_system = [(''T'', trend_strategy)]"
    by (simp add: trend_system_def update_keeps_rest system_evaluated_eq system_added_def)
  show e: "strategy_scores (evaluator trend_system) = [(''T'', trend_score)]"
    by (simp add: trend_system_def update_keeps_rest system_evaluated_eq)
  show "cached_valid_scores trend_system = [trend_score]"
    by (simp add: cached_valid_scores_def e v)
qed

lemma trend_system_reachable: "reachable nan_indicators trend_system"
proof -
  have "reachable nan_indicators (new_system (Fin 1000000))" by (rule reachable.start)
  from reachable.data [OF this, of "(''SYM'', 0, 19)" trend_bars]
  have "reachable nan_indicators system_loaded"
    by (simp add: system_loaded_def trend_engine_def new_system_def)
  moreover have "add_strategy system_loaded ''T'' (\<lambda>u. Inr trend_strategy) () = Inr system_added"
    by (simp add: add_strategy_def system_added_def system_loaded_def new_system_def)
  ultimately have "reachable nan_indicators system_added" by (rule reachable.added)
  then have "reachable nan_indicators system_evaluated"
    unfolding system_evaluated_def by (rule reachable.evaluated)
  then show ?thesis unfolding trend_system_def by (rule reachable.updated)
qed

text \<open>
  Claim C10: \<^verbatim>\<open>retire_strategy\<close> takes the id out of the registry and leaves the
  evaluator, with its cached scores, as it was. So when the id is registered and has a
  cached score of at least 0.4, and the cached scores of at least 0.4 have distinct ids
  and finite non-zero drawdowns, the portfolio update at the end of the call allocates
  the retired id again, with a positive weight. Such a state is reachable: the system
  that registered the two-trade strategy, evaluated it on one period and updated the
  portfolio.
\<close>

theorem retirement_not_terminal:
  "k \<notin> set (dict_keys (strategies (retire_strategy sys k now)))
   \<and> evaluator (retire_strategy sys k now) = evaluator sys
   \<and> (k \<in> set (dict_keys (strategies sys))
        \<and> k \<in> score_id ` set (cached_valid_scores sys)
        \<and> distinct (map score_id (cached_valid_scores sys))
        \<and> (\<forall>s\<in>set (cached_valid_scores sys).
              \<exists>d. m_max_drawdown (performance_metrics s) = Fin d \<and> d \<noteq> 0)
      \<longrightarrow> (\<exists>a. dict_get (allocations (portfolio (retire_strategy sys k now))) k = Some a
                \<and> flt (Fin 0) (weight a)))
   \<and> reachable nan_indicators trend_system
   \<and> ''T'' \<in> set (dict_keys (strategies trend_system))
   \<and> dict_get (strategy_scores (evaluator trend_system)) ''T'' = Some trend_score
   \<and> fle (Fin 0.4) (overall_score trend_score)
   \<and> ''T'' \<in> score_id ` set (cached_valid_scores trend_system)
   \<and> distinct (map score_id (cached_valid_scores trend_system))
   \<and> (\<forall>s\<in>set (cached_valid_scores trend_system).
         \<exists>d. m_max_drawdown (performance_metrics s) = Fin d \<and> d \<noteq> 0)"
proof (intro conjI impI)
  show "k \<notin> set (dict_keys (strategies (retire_strategy sys k now)))"
    by (rule retire_registry)
  show "evaluator (retire_strategy sys k now) = evaluator sys"
    by (rule retire_evaluator)
  show "\<exists>a. dict_get (allocations (portfolio (retire_strategy sys k now))) k = Some a
            \<and> flt (Fin 0) (weight a)"
    if "k \<in> set (dict_keys (strategies sys))
        \<and> k \<in> score_id ` set (cached_valid_scores sys)
        \<and> distinct (map score_id (cached_valid_scores sys))
        \<and> (\<forall>s\<in>set (cached_valid_scores sys).
              \<exists>d. m_max_drawdown (performance_metrics s) = Fin d \<and> d \<noteq> 0)"
    using that by (intro retire_reallocates) simp_all
  show "reachable nan_indicators trend_system" by (rule trend_system_reachable)
  show "''T'' \<in> set (dict_keys (strategies trend_system))"
    by (simp add: trend_system_parts dict_keys_def)
  show "dict_get (strategy_scores (evaluator trend_system)) ''T'' = Some trend_score"
    by (simp add: trend_system_parts dict_get_def)
  show "fle (Fin 0.4) (overall_score trend_score)" by (rule trend_score_valid)
  show "''T'' \<in> score_id ` set (cached_valid_scores trend_system)"
    by (simp add: trend_system_parts trend_score_def)
  show "distinct (map score_id (cached_valid_scores trend_system))"
    by (simp add: trend_system_parts)
  show "\<forall>s\<in>set (cached_valid_scores trend_system).
          \<exists>d. m_max_drawdown (performance_metrics s) = Fin d \<and> d \<noteq> 0"
    unfolding trend_system_parts
    by (intro ballI exI [of _ "101 / 100000"]) (simp add: trend_score_drawdown)
qed

theorem retirement_not_terminal_witness:
  "reachable nan_indicators trend_system
   \<and> ''T'' \<in> set (dict_keys (strategies trend_system))
   \<and> ''T'' \<notin> set (dict_keys (strategies (retire_strategy trend_system ''T'' 32)))
   \<and> dict_get (strategy_scores (evaluator (retire_strategy trend_system ''T'' 32))) ''T''
       = Some trend_score
   \<and> fle (Fin 0.4) (overall_score trend_score)
   \<and> (\<exists>a. dict_get (allocations (portfolio (retire_strategy trend_system ''T'' 32))) ''T'' = Some a
          \<and> flt (Fin 0) (weight a))"
  using retirement_not_terminal [of "''T''" trend_system 32]
  by simp

end
